theory Spec2Isabelle
  imports
    Main
    "HOL-Library.Sublist"
    "HOL-Library.List_Lexorder"
    "HOL-Library.Product_Lexorder"
    "HOL-Library.Multiset"
begin

chapter \<open>ProjectMnemosyne: plugin validation, index generation and SKILL.md patching\<close>

text \<open>
  A shallow embedding of four scripts of the repository:
  \<^item> \<^verbatim>\<open>scripts/validate_plugins.py\<close> (suffix \<open>_vp\<close> where a name is shared),
  \<^item> \<^verbatim>\<open>scripts/generate_marketplace.py\<close> (suffix \<open>_gm\<close>),
  \<^item> \<^verbatim>\<open>scripts/fix_validation_warnings.py\<close> (suffix \<open>_fvw\<close>),
  \<^item> \<^verbatim>\<open>scripts/fix_failed_attempts_tables.py\<close> (suffix \<open>_fat\<close>).

  Python exceptions are values of \<open>pyexc\<close> and a function that may raise returns
  \<open>pyexc + 'a\<close>. The file system is an explicit tree that the functions read; the two
  fixer scripts return the tree after their writes together with the list of
  \<^verbatim>\<open>write_file\<close> calls they made. \<^verbatim>\<open>print\<close> output is not modelled.
\<close>

section \<open>Python strings\<close>

text \<open>
  A Python \<^verbatim>\<open>str\<close> is a sequence of Unicode code points, so \<^verbatim>\<open>len\<close> and slicing
  count code points. A string is modelled as the list of its code points; \<open>u\<close> turns an
  ASCII literal into one.
\<close>

type_synonym pstr = "nat list"

definition u :: "string \<Rightarrow> pstr" where
  "u s = map of_char s"

text \<open>The newline character, and a list of lines written out with a newline after each.\<close>

definition nl :: pstr where
  "nl = [10]"

definition text_lines :: "pstr list \<Rightarrow> pstr" where
  "text_lines ls = concat (map (\<lambda>l. l @ nl) ls)"

text \<open>
  Whitespace as CPython's \<^verbatim>\<open>str.strip\<close>, \<^verbatim>\<open>str.isspace\<close> and the pattern \<^verbatim>\<open>\s\<close> (on
  \<^verbatim>\<open>str\<close>) see it.
\<close>

definition is_space :: "nat \<Rightarrow> bool" where
  "is_space c =
     (List.member [9, 10, 11, 12, 13, 28, 29, 30, 31, 32, 133, 160, 5760,
                   8232, 8233, 8239, 8287, 12288] c
      \<or> (8192 \<le> c \<and> c \<le> 8202))"

text \<open>
  \<^verbatim>\<open>\d\<close> on \<^verbatim>\<open>str\<close> matches every Unicode decimal digit. The ASCII digits are
  fixed; which code points beyond ASCII are decimal digits depends on the Unicode tables
  of the interpreter, taken as the parameter \<open>nd\<close>.
\<close>

definition is_digit :: "(nat \<Rightarrow> bool) \<Rightarrow> nat \<Rightarrow> bool" where
  "is_digit nd c = (if c < 128 then 48 \<le> c \<and> c \<le> 57 else nd c)"

text \<open>\<^verbatim>\<open>s.startswith(p)\<close>, \<^verbatim>\<open>sub in s\<close> and \<^verbatim>\<open>s.find(sub)\<close>.\<close>

definition startswith :: "pstr \<Rightarrow> pstr \<Rightarrow> bool" where
  "startswith s p = (take (length p) s = p)"

fun str_find :: "pstr \<Rightarrow> pstr \<Rightarrow> nat option" where
  "str_find sub [] = (if sub = [] then Some 0 else None)"
| "str_find sub (c # cs) =
     (if startswith (c # cs) sub then Some 0 else map_option Suc (str_find sub cs))"

definition str_in :: "pstr \<Rightarrow> pstr \<Rightarrow> bool" where
  "str_in sub s = (str_find sub s \<noteq> None)"

text \<open>
  \<^verbatim>\<open>s.split(sep)\<close> and \<^verbatim>\<open>s.replace(old, new)\<close>: occurrences are found from the
  left and do not overlap. Both are only called with constant, non-empty separators
  (Python raises ValueError on an empty separator; the model then returns \<open>[s]\<close> and \<open>s\<close>).
\<close>

function py_split :: "pstr \<Rightarrow> pstr \<Rightarrow> pstr list" where
  "py_split sep s =
     (if sep = [] then [s]
      else case str_find sep s of
             None \<Rightarrow> [s]
           | Some i \<Rightarrow> take i s # py_split sep (drop (i + length sep) s))"
  by pat_completeness auto
termination
proof (relation "measure (\<lambda>(sep, s). length s)")
  show "wf (measure (\<lambda>(sep, s). length s))" by simp
next
  fix sep s :: pstr and i :: nat
  assume "sep \<noteq> []" and "str_find sep s = Some i"
  then have "s \<noteq> []" by (cases s) auto
  with \<open>sep \<noteq> []\<close>
  show "((sep, drop (i + length sep) s), (sep, s)) \<in> measure (\<lambda>(sep, s). length s)"
    by simp
qed

function py_replace :: "pstr \<Rightarrow> pstr \<Rightarrow> pstr \<Rightarrow> pstr" where
  "py_replace old new s =
     (if old = [] then s
      else case str_find old s of
             None \<Rightarrow> s
           | Some i \<Rightarrow> take i s @ new @ py_replace old new (drop (i + length old) s))"
  by pat_completeness auto
termination
proof (relation "measure (\<lambda>(old, new, s). length s)")
  show "wf (measure (\<lambda>(old, new, s). length s))" by simp
next
  fix old new s :: pstr and i :: nat
  assume "old \<noteq> []" and "str_find old s = Some i"
  then have "s \<noteq> []" by (cases s) auto
  with \<open>old \<noteq> []\<close>
  show "((old, new, drop (i + length old) s), (old, new, s))
          \<in> measure (\<lambda>(old, new, s). length s)"
    by simp
qed

text \<open>\<^verbatim>\<open>sep.join(xs)\<close>, \<^verbatim>\<open>s.strip()\<close>, \<^verbatim>\<open>s.rstrip()\<close>.\<close>

fun py_join :: "pstr \<Rightarrow> pstr list \<Rightarrow> pstr" where
  "py_join sep [] = []"
| "py_join sep [x] = x"
| "py_join sep (x # y # ys) = x @ sep @ py_join sep (y # ys)"

definition py_rstrip :: "pstr \<Rightarrow> pstr" where
  "py_rstrip s = rev (dropWhile is_space (rev s))"

definition py_strip :: "pstr \<Rightarrow> pstr" where
  "py_strip s = dropWhile is_space (py_rstrip s)"

text \<open>\<^verbatim>\<open>str(n)\<close> for an integer: decimal digits, with a minus sign when negative.\<close>

function str_of_nat :: "nat \<Rightarrow> pstr" where
  "str_of_nat n = (if n < 10 then [48 + n] else str_of_nat (n div 10) @ [48 + n mod 10])"
  by pat_completeness auto
termination
  by (relation "measure (\<lambda>n. n)") auto

definition str_of_int :: "int \<Rightarrow> pstr" where
  "str_of_int i = (if i < 0 then 45 # str_of_nat (nat (- i)) else str_of_nat (nat i))"

section \<open>Regular expressions (the part of Python's \<open>re\<close> the scripts use)\<close>

text \<open>
  Every pattern of the scripts is built from literal characters, character sets, the
  anchors \<^verbatim>\<open>^\<close>, \<^verbatim>\<open>$\<close> and \<^verbatim>\<open>\Z\<close>, sequence, alternation, groups, and greedy or lazy
  repetition of a single character set. The matcher is a backtracking matcher with
  Python's priorities: the left alternative first, a greedy repetition takes a character
  before it tries the rest of the pattern, a lazy one tries the rest first.
\<close>

datatype reflag = MULTILINE | DOTALL

datatype cset =
    CDot                \<comment> \<open>\<^verbatim>\<open>.\<close>\<close>
  | CSpace              \<comment> \<open>\<^verbatim>\<open>\s\<close>\<close>
  | CDigit              \<comment> \<open>\<^verbatim>\<open>\d\<close>\<close>
  | COne nat            \<comment> \<open>one character inside \<^verbatim>\<open>[...]\<close>\<close>
  | CRange nat nat      \<comment> \<open>\<^verbatim>\<open>a-z\<close> inside \<^verbatim>\<open>[...]\<close>\<close>
  | CUnion cset cset

datatype rx =
    Chr nat
  | Cset cset
  | Bol                 \<comment> \<open>\<^verbatim>\<open>^\<close>\<close>
  | Eol                 \<comment> \<open>\<^verbatim>\<open>$\<close>\<close>
  | EndZ                \<comment> \<open>\<^verbatim>\<open>\Z\<close>\<close>
  | Eps
  | Seq rx rx
  | Alt rx rx
  | Star bool cset      \<comment> \<open>\<^verbatim>\<open>c*\<close> when the flag is True, \<^verbatim>\<open>c*?\<close> when False\<close>
  | Grp nat rx

fun Lit :: "pstr \<Rightarrow> rx" where
  "Lit [] = Eps"
| "Lit [c] = Chr c"
| "Lit (c # d # cs) = Seq (Chr c) (Lit (d # cs))"

fun rx_cat :: "rx list \<Rightarrow> rx" where
  "rx_cat [] = Eps"
| "rx_cat [r] = r"
| "rx_cat (r # s # rs) = Seq r (rx_cat (s # rs))"

definition Plus :: "bool \<Rightarrow> cset \<Rightarrow> rx" where
  "Plus greedy cs = Seq (Cset cs) (Star greedy cs)"

definition Opt :: "rx \<Rightarrow> rx" where
  "Opt r = Alt r Eps"

fun cset_mem :: "reflag list \<Rightarrow> (nat \<Rightarrow> bool) \<Rightarrow> cset \<Rightarrow> nat \<Rightarrow> bool" where
  "cset_mem fl nd CDot c = (if List.member fl DOTALL then True else c \<noteq> 10)"
| "cset_mem fl nd CSpace c = is_space c"
| "cset_mem fl nd CDigit c = is_digit nd c"
| "cset_mem fl nd (COne a) c = (c = a)"
| "cset_mem fl nd (CRange a b) c = (a \<le> c \<and> c \<le> b)"
| "cset_mem fl nd (CUnion x y) c = (cset_mem fl nd x c \<or> cset_mem fl nd y c)"

text \<open>
  \<^verbatim>\<open>^\<close> matches at the start of the string and, under MULTILINE, after each newline;
  \<^verbatim>\<open>$\<close> matches at the end of the string and before a newline that ends the string,
  and under MULTILINE before every newline. The matcher knows the character before the
  current position (None at the start of the string) and the rest of the input.
\<close>

definition at_bol :: "reflag list \<Rightarrow> nat option \<Rightarrow> bool" where
  "at_bol fl prev = (prev = None \<or> (List.member fl MULTILINE \<and> prev = Some 10))"

definition at_eol :: "reflag list \<Rightarrow> pstr \<Rightarrow> bool" where
  "at_eol fl rest =
     (case rest of [] \<Rightarrow> True | x # xs \<Rightarrow> x = 10 \<and> (List.member fl MULTILINE \<or> xs = []))"

text \<open>
  The state of a match attempt: position, previous character, rest of the input, and the
  groups closed so far (number, start, end), the latest first. The matcher runs a stack
  of frames: the patterns still to match, and the groups to close.
\<close>

type_synonym mstate = "nat \<times> nat option \<times> pstr \<times> (nat \<times> nat \<times> nat) list"

datatype frame = Match rx | Close nat nat

fun rx_weight :: "rx \<Rightarrow> nat" where
  "rx_weight (Seq a b) = Suc (rx_weight a + rx_weight b)"
| "rx_weight (Alt a b) = Suc (rx_weight a + rx_weight b)"
| "rx_weight (Grp n r) = Suc (Suc (rx_weight r))"
| "rx_weight r = 1"

fun frame_weight :: "frame \<Rightarrow> nat" where
  "frame_weight (Match r) = rx_weight r"
| "frame_weight (Close n b) = 1"

function (sequential) rx_run ::
  "reflag list \<Rightarrow> (nat \<Rightarrow> bool) \<Rightarrow> frame list \<Rightarrow> mstate \<Rightarrow> mstate option" where
  "rx_run fl nd [] st = Some st"
| "rx_run fl nd (Close n b # ks) (p, prev, rest, caps) =
     rx_run fl nd ks (p, prev, rest, (n, b, p) # caps)"
| "rx_run fl nd (Match (Chr c) # ks) (p, prev, rest, caps) =
     (case rest of
        [] \<Rightarrow> None
      | x # xs \<Rightarrow> if x = c then rx_run fl nd ks (Suc p, Some x, xs, caps) else None)"
| "rx_run fl nd (Match (Cset cs) # ks) (p, prev, rest, caps) =
     (case rest of
        [] \<Rightarrow> None
      | x # xs \<Rightarrow>
          if cset_mem fl nd cs x then rx_run fl nd ks (Suc p, Some x, xs, caps) else None)"
| "rx_run fl nd (Match Bol # ks) (p, prev, rest, caps) =
     (if at_bol fl prev then rx_run fl nd ks (p, prev, rest, caps) else None)"
| "rx_run fl nd (Match Eol # ks) (p, prev, rest, caps) =
     (if at_eol fl rest then rx_run fl nd ks (p, prev, rest, caps) else None)"
| "rx_run fl nd (Match EndZ # ks) (p, prev, rest, caps) =
     (if rest = [] then rx_run fl nd ks (p, prev, rest, caps) else None)"
| "rx_run fl nd (Match Eps # ks) (p, prev, rest, caps) =
     rx_run fl nd ks (p, prev, rest, caps)"
| "rx_run fl nd (Match (Seq a b) # ks) (p, prev, rest, caps) =
     rx_run fl nd (Match a # Match b # ks) (p, prev, rest, caps)"
| "rx_run fl nd (Match (Alt a b) # ks) (p, prev, rest, caps) =
     (case rx_run fl nd (Match a # ks) (p, prev, rest, caps) of
        Some r \<Rightarrow> Some r
      | None \<Rightarrow> rx_run fl nd (Match b # ks) (p, prev, rest, caps))"
| "rx_run fl nd (Match (Grp n r) # ks) (p, prev, rest, caps) =
     rx_run fl nd (Match r # Close n p # ks) (p, prev, rest, caps)"
| "rx_run fl nd (Match (Star True cs) # ks) (p, prev, rest, caps) =
     (case rest of
        [] \<Rightarrow> rx_run fl nd ks (p, prev, rest, caps)
      | x # xs \<Rightarrow>
          if cset_mem fl nd cs x then
            (case rx_run fl nd (Match (Star True cs) # ks) (Suc p, Some x, xs, caps) of
               Some r \<Rightarrow> Some r
             | None \<Rightarrow> rx_run fl nd ks (p, prev, rest, caps))
          else rx_run fl nd ks (p, prev, rest, caps))"
| "rx_run fl nd (Match (Star False cs) # ks) (p, prev, rest, caps) =
     (case rx_run fl nd ks (p, prev, rest, caps) of
        Some r \<Rightarrow> Some r
      | None \<Rightarrow>
          (case rest of
             [] \<Rightarrow> None
           | x # xs \<Rightarrow>
               if cset_mem fl nd cs x
               then rx_run fl nd (Match (Star False cs) # ks) (Suc p, Some x, xs, caps)
               else None))"
  by pat_completeness auto
termination
  by (relation "measures [\<lambda>(fl, nd, ks, p, prev, rest, caps). length rest,
                          \<lambda>(fl, nd, ks, st). sum_list (map frame_weight ks)]") auto

text \<open>
  A match object: \<^verbatim>\<open>m.start()\<close>, \<^verbatim>\<open>m.end()\<close> and the groups. \<^verbatim>\<open>re.match\<close> tries
  position 0 only; \<^verbatim>\<open>re.search\<close> tries every position from the left and returns the first
  match. The search also returns where the match ended (previous character and rest), for
  \<^verbatim>\<open>re.finditer\<close> to go on from there.
\<close>

type_synonym rmatch = "nat \<times> nat \<times> (nat \<times> nat \<times> nat) list"

definition re_match :: "reflag list \<Rightarrow> (nat \<Rightarrow> bool) \<Rightarrow> rx \<Rightarrow> pstr \<Rightarrow> rmatch option" where
  "re_match fl nd r s =
     (case rx_run fl nd [Match r] (0, None, s, []) of
        None \<Rightarrow> None
      | Some (e, prev', rest', caps) \<Rightarrow> Some (0, e, caps))"

fun rx_search_from ::
  "reflag list \<Rightarrow> (nat \<Rightarrow> bool) \<Rightarrow> rx \<Rightarrow> nat \<Rightarrow> nat option \<Rightarrow> pstr
     \<Rightarrow> (rmatch \<times> nat option \<times> pstr) option" where
  "rx_search_from fl nd r p prev [] =
     (case rx_run fl nd [Match r] (p, prev, [], []) of
        Some (e, prev', rest', caps) \<Rightarrow> Some ((p, e, caps), prev', rest')
      | None \<Rightarrow> None)"
| "rx_search_from fl nd r p prev (x # xs) =
     (case rx_run fl nd [Match r] (p, prev, x # xs, []) of
        Some (e, prev', rest', caps) \<Rightarrow> Some ((p, e, caps), prev', rest')
      | None \<Rightarrow> rx_search_from fl nd r (Suc p) (Some x) xs)"

definition re_search :: "reflag list \<Rightarrow> (nat \<Rightarrow> bool) \<Rightarrow> rx \<Rightarrow> pstr \<Rightarrow> rmatch option" where
  "re_search fl nd r s = map_option fst (rx_search_from fl nd r 0 None s)"

text \<open>
  \<^verbatim>\<open>re.finditer\<close>: the matches from the left, each search starting where the last match
  ended. After an empty match the search moves one character on (the patterns of the
  scripts start with a literal and never match the empty string).
\<close>

function rx_finditer_from ::
  "reflag list \<Rightarrow> (nat \<Rightarrow> bool) \<Rightarrow> rx \<Rightarrow> nat \<Rightarrow> nat option \<Rightarrow> pstr \<Rightarrow> rmatch list" where
  "rx_finditer_from fl nd r p prev rest =
     (case rx_search_from fl nd r p prev rest of
        None \<Rightarrow> []
      | Some ((b, e, caps), prev', rest') \<Rightarrow>
          (b, e, caps) #
          (if length rest' < length rest then rx_finditer_from fl nd r e prev' rest'
           else case rest' of
                  [] \<Rightarrow> []
                | x # xs \<Rightarrow>
                    if length xs < length rest
                    then rx_finditer_from fl nd r (Suc e) (Some x) xs else []))"
  by pat_completeness auto
termination
  by (relation "measure (\<lambda>(fl, nd, r, p, prev, rest). length rest)") auto

definition re_finditer :: "reflag list \<Rightarrow> (nat \<Rightarrow> bool) \<Rightarrow> rx \<Rightarrow> pstr \<Rightarrow> rmatch list" where
  "re_finditer fl nd r s = rx_finditer_from fl nd r 0 None s"

text \<open>\<^verbatim>\<open>m.group(n)\<close> of a match on \<open>s\<close> (the empty string if the group took no part).\<close>

definition m_start :: "rmatch \<Rightarrow> nat" where
  "m_start m = fst m"

definition m_end :: "rmatch \<Rightarrow> nat" where
  "m_end m = fst (snd m)"

definition m_group :: "pstr \<Rightarrow> rmatch \<Rightarrow> nat \<Rightarrow> pstr" where
  "m_group s m n =
     (case map_of (snd (snd m)) n of
        None \<Rightarrow> []
      | Some (b, e) \<Rightarrow> take (e - b) (drop b s))"

text \<open>\<^verbatim>\<open>re.sub(pattern, repl, s)\<close> with a literal replacement.\<close>

fun splice :: "pstr \<Rightarrow> nat \<Rightarrow> rmatch list \<Rightarrow> pstr \<Rightarrow> pstr" where
  "splice s p [] repl = drop p s"
| "splice s p (m # ms) repl =
     take (m_start m - p) (drop p s) @ repl @ splice s (m_end m) ms repl"

definition re_sub :: "reflag list \<Rightarrow> (nat \<Rightarrow> bool) \<Rightarrow> rx \<Rightarrow> pstr \<Rightarrow> pstr \<Rightarrow> pstr" where
  "re_sub fl nd r repl s = splice s 0 (re_finditer fl nd r s) repl"

section \<open>Exceptions and the file system\<close>

text \<open>
  The exceptions the scripts can meet. The two OS errors carry the path they were raised
  for; \<open>ReadError\<close> is any other exception of a text-mode read (a decoding or permission
  error), with its message.
\<close>

type_synonym path = "pstr list"

datatype pyexc =
    FileNotFoundError path
  | NotADirectoryError path
  | IsADirectoryError path
  | ReadError pstr
  | AttributeError
  | TypeError
  | IndexError

text \<open>
  A file holds text, or cannot be read as text. A directory lists its entries in the
  order the operating system returns them. The file system is the tree below \<^verbatim>\<open>/\<close>
  together with the working directory of the process, given by the names that lead to it
  from the root. There are no symbolic links.
\<close>

datatype fcontent = Text pstr | Unreadable pstr

datatype fsnode = File fcontent | Dir "(pstr \<times> fsnode) list"

record filesys =
  fs_root :: fsnode
  fs_cwd :: "pstr list"

text \<open>
  A path is the list of its \<^verbatim>\<open>parts\<close>, as pathlib keeps them: for an absolute path the
  first part is the anchor \<^verbatim>\<open>/\<close> (or \<^verbatim>\<open>//\<close>, which POSIX keeps apart when a path starts
  with exactly two slashes); \<^verbatim>\<open>..\<close> stays a part; empty parts and \<^verbatim>\<open>.\<close> are dropped
  when the path is made. \<^verbatim>\<open>Path.name\<close>, \<^verbatim>\<open>Path.parent\<close> and \<^verbatim>\<open>str(path)\<close> only look at
  the parts.
\<close>

definition is_anchor :: "pstr \<Rightarrow> bool" where
  "is_anchor c = (c = u ''/'' \<or> c = u ''//'')"

definition Path :: "pstr \<Rightarrow> path" where
  "Path s =
     (if startswith s (u ''//'') \<and> \<not> startswith s (u ''///'') then [u ''//'']
      else if startswith s (u ''/'') then [u ''/'']
      else [])
     @ filter (\<lambda>c. c \<noteq> [] \<and> c \<noteq> u ''.'') (py_split (u ''/'') s)"

definition path_name :: "path \<Rightarrow> pstr" where
  "path_name p = (if p = [] then [] else if is_anchor (last p) then [] else last p)"

definition path_parent :: "path \<Rightarrow> path" where
  "path_parent p = (if p = [] then [] else if is_anchor (last p) then p else butlast p)"

definition path_str :: "path \<Rightarrow> pstr" where
  "path_str p =
     (case p of
        [] \<Rightarrow> u ''.''
      | c # cs \<Rightarrow> if is_anchor c then c @ py_join (u ''/'') cs else py_join (u ''/'') (c # cs))"

text \<open>
  How the operating system resolves a path. \<open>node_at\<close> goes down from the root by names.
  \<open>walk\<close> resolves the parts one at a time from the directory at \<open>cur\<close>: \<^verbatim>\<open>..\<close> goes to
  the parent (the root is its own parent), a name goes into the entry of that name. A part
  that has to be looked up in something that is no directory ends the walk with \<open>NotDir\<close>
  (the error ENOTDIR), a name that is not there with \<open>NoEntry\<close> (ENOENT). \<open>Found\<close> has
  the names that lead to the node from the root, and the node.
\<close>

function node_at :: "fsnode \<Rightarrow> pstr list \<Rightarrow> fsnode option" where
  "node_at n [] = Some n"
| "node_at (File c) (x # xs) = None"
| "node_at (Dir es) (x # xs) =
     (case map_of es x of None \<Rightarrow> None | Some n \<Rightarrow> node_at n xs)"
  by pat_completeness auto
termination
  by (relation "measure (\<lambda>(n, p). length p)") auto

datatype stat = Found "pstr list" fsnode | NoEntry | NotDir

fun walk :: "fsnode \<Rightarrow> pstr list \<Rightarrow> pstr list \<Rightarrow> stat" where
  "walk r cur [] = (case node_at r cur of None \<Rightarrow> NoEntry | Some n \<Rightarrow> Found cur n)"
| "walk r cur (c # cs) =
     (case node_at r cur of
        None \<Rightarrow> NoEntry
      | Some (File f) \<Rightarrow> NotDir
      | Some (Dir es) \<Rightarrow>
          if c = u ''..'' then walk r (butlast cur) cs
          else (case map_of es c of
                  None \<Rightarrow> NoEntry
                | Some n \<Rightarrow> walk r (cur @ [c]) cs))"

definition fs_lookup :: "filesys \<Rightarrow> path \<Rightarrow> stat" where
  "fs_lookup fs p =
     (case p of
        [] \<Rightarrow> walk (fs_root fs) (fs_cwd fs) []
      | c # cs \<Rightarrow>
          if is_anchor c then walk (fs_root fs) [] cs
          else walk (fs_root fs) (fs_cwd fs) (c # cs))"

text \<open>\<^verbatim>\<open>Path.exists\<close> and \<^verbatim>\<open>Path.is_dir\<close>: both are False when the path cannot be
  resolved, whatever the reason.\<close>

definition fs_exists :: "filesys \<Rightarrow> path \<Rightarrow> bool" where
  "fs_exists fs p =
     (case fs_lookup fs p of Found loc n \<Rightarrow> True | NoEntry \<Rightarrow> False | NotDir \<Rightarrow> False)"

definition fs_is_dir :: "filesys \<Rightarrow> path \<Rightarrow> bool" where
  "fs_is_dir fs p =
     (case fs_lookup fs p of
        Found loc (Dir es) \<Rightarrow> True
      | Found loc (File c) \<Rightarrow> False
      | NoEntry \<Rightarrow> False
      | NotDir \<Rightarrow> False)"

text \<open>
  \<^verbatim>\<open>Path.iterdir\<close> raises when the path cannot be resolved or is not a directory; the
  loop \<^verbatim>\<open>for d in p.iterdir()\<close> then raises before its first iteration.
\<close>

definition fs_iterdir :: "filesys \<Rightarrow> path \<Rightarrow> pyexc + path list" where
  "fs_iterdir fs p =
     (case fs_lookup fs p of
        NoEntry \<Rightarrow> Inl (FileNotFoundError p)
      | NotDir \<Rightarrow> Inl (NotADirectoryError p)
      | Found loc (File c) \<Rightarrow> Inl (NotADirectoryError p)
      | Found loc (Dir es) \<Rightarrow> Inr (map (\<lambda>e. p @ [fst e]) es))"

text \<open>\<^verbatim>\<open>open(path).read()\<close> and \<^verbatim>\<open>Path.read_text()\<close>.\<close>

definition fs_read :: "filesys \<Rightarrow> path \<Rightarrow> pyexc + pstr" where
  "fs_read fs p =
     (case fs_lookup fs p of
        NoEntry \<Rightarrow> Inl (FileNotFoundError p)
      | NotDir \<Rightarrow> Inl (NotADirectoryError p)
      | Found loc (Dir es) \<Rightarrow> Inl (IsADirectoryError p)
      | Found loc (File (Unreadable msg)) \<Rightarrow> Inl (ReadError msg)
      | Found loc (File (Text t)) \<Rightarrow> Inr t)"

text \<open>
  \<^verbatim>\<open>open(path, 'w').write(content)\<close>: the file is replaced, or created in a directory
  that exists. \<open>tree_put\<close> puts a node at the place the names lead to.
\<close>

fun alist_put :: "'k \<Rightarrow> 'v \<Rightarrow> ('k \<times> 'v) list \<Rightarrow> ('k \<times> 'v) list" where
  "alist_put k v [] = [(k, v)]"
| "alist_put k v (e # es) = (if fst e = k then (k, v) # es else e # alist_put k v es)"

function tree_put :: "fsnode \<Rightarrow> pstr list \<Rightarrow> fsnode \<Rightarrow> fsnode" where
  "tree_put n [] v = v"
| "tree_put (File c) (x # xs) v = File c"
| "tree_put (Dir es) (x # xs) v =
     (case map_of es x of
        None \<Rightarrow> if xs = [] then Dir (alist_put x v es) else Dir es
      | Some n \<Rightarrow> Dir (alist_put x (tree_put n xs v) es))"
  by pat_completeness auto
termination
  by (relation "measure (\<lambda>(n, p, v). length p)") auto

definition fs_write :: "filesys \<Rightarrow> path \<Rightarrow> pstr \<Rightarrow> pyexc + filesys" where
  "fs_write fs p t =
     (case fs_lookup fs p of
        Found loc (Dir es) \<Rightarrow> Inl (IsADirectoryError p)
      | Found loc (File c) \<Rightarrow>
          Inr (fs\<lparr>fs_root := tree_put (fs_root fs) loc (File (Text t))\<rparr>)
      | NotDir \<Rightarrow> Inl (NotADirectoryError p)
      | NoEntry \<Rightarrow>
          (case fs_lookup fs (butlast p) of
             Found loc (Dir es) \<Rightarrow>
               if p = [] then Inl (FileNotFoundError p)
               else Inr (fs\<lparr>fs_root := tree_put (fs_root fs) (loc @ [last p])
                                           (File (Text t))\<rparr>)
           | Found loc (File c) \<Rightarrow> Inl (NotADirectoryError p)
           | NoEntry \<Rightarrow> Inl (FileNotFoundError p)
           | NotDir \<Rightarrow> Inl (NotADirectoryError p)))"

section \<open>scripts/fix_failed_attempts_tables.py\<close>

text \<open>
  \<^verbatim>\<open>r'^## Failed Attempts.*?$(.*?)(?:^##|\Z)'\<close>, searched with MULTILINE and DOTALL,
  and \<^verbatim>\<open>r'^## Failed Attempts.*?$'\<close>, searched with MULTILINE.
\<close>

definition re_section_fat :: rx where
  "re_section_fat =
     rx_cat [Bol, Lit (u ''## Failed Attempts''), Star False CDot, Eol,
             Grp 1 (Star False CDot), Alt (Seq Bol (Lit (u ''##''))) EndZ]"

definition re_heading_fat :: rx where
  "re_heading_fat = rx_cat [Bol, Lit (u ''## Failed Attempts''), Star False CDot, Eol]"

definition has_failed_attempts_table_fat :: "(nat \<Rightarrow> bool) \<Rightarrow> pstr \<Rightarrow> bool" where
  "has_failed_attempts_table_fat nd content =
     (case re_search [MULTILINE, DOTALL] nd re_section_fat content of
        None \<Rightarrow> True
      | Some m \<Rightarrow> str_in (u ''|'') (m_group content m 1))"

text \<open>
  The three patterns of \<^verbatim>\<open>extract_attempts_from_subsections\<close>, each used with
  MULTILINE only; the first has the cross mark U+274C:
  \<^verbatim>\<open>###\s*X\s*Attempt\s+\d+:\s*(.+?)$\<close>, \<^verbatim>\<open>###\s*Attempt\s+\d+:\s*(.+?)$\<close>,
  \<^verbatim>\<open>###\s*(.+?)$\<close>.
\<close>

definition attempt_patterns :: "rx list" where
  "attempt_patterns =
     [rx_cat [Lit (u ''###''), Star True CSpace, Chr 10060, Star True CSpace,
              Lit (u ''Attempt''), Plus True CSpace, Plus True CDigit, Chr 58,
              Star True CSpace, Grp 1 (Plus False CDot), Eol],
      rx_cat [Lit (u ''###''), Star True CSpace,
              Lit (u ''Attempt''), Plus True CSpace, Plus True CDigit, Chr 58,
              Star True CSpace, Grp 1 (Plus False CDot), Eol],
      rx_cat [Lit (u ''###''), Star True CSpace, Grp 1 (Plus False CDot), Eol]]"

record attempt =
  title :: pstr
  position :: nat

text \<open>The loop over the patterns: the first pattern with a match decides, at most three
  of its matches are kept.\<close>

fun attempts_loop :: "(nat \<Rightarrow> bool) \<Rightarrow> rx list \<Rightarrow> pstr \<Rightarrow> attempt list" where
  "attempts_loop nd [] section_content = []"
| "attempts_loop nd (pattern # patterns) section_content =
     (let matches = re_finditer [MULTILINE] nd pattern section_content
      in if matches \<noteq> []
         then map (\<lambda>m. \<lparr>title = py_strip (m_group section_content m 1),
                         position = m_start m\<rparr>) (take 3 matches)
         else attempts_loop nd patterns section_content)"

definition extract_attempts_from_subsections :: "(nat \<Rightarrow> bool) \<Rightarrow> pstr \<Rightarrow> attempt list" where
  "extract_attempts_from_subsections nd section_content =
     attempts_loop nd attempt_patterns section_content"

definition table_header_fat :: pstr where
  "table_header_fat =
     nl @ text_lines [u ''| Attempt | Issue | Resolution |'',
                      u ''|---------|-------|------------|'']"

definition generic_table_fat :: pstr where
  "generic_table_fat =
     table_header_fat @
     text_lines [u ''| See detailed notes below | Various approaches tried | Refer to documentation in this section |'']"

text \<open>One row per attempt, numbered from 1, the title cut to 47 characters and an
  ellipsis when it is longer than 50.\<close>

fun table_rows :: "nat \<Rightarrow> attempt list \<Rightarrow> pstr" where
  "table_rows i [] = []"
| "table_rows i (a # as) =
     (let t = (if length (title a) > 50 then take 47 (title a) @ u ''...'' else title a)
      in u ''| '' @ str_of_nat i @ u ''. '' @ t
           @ u '' | See details below | Documented in subsections |'' @ nl
           @ table_rows (Suc i) as)"

definition generate_summary_table :: "(nat \<Rightarrow> bool) \<Rightarrow> pstr \<Rightarrow> pstr" where
  "generate_summary_table nd section_content =
     (let attempts = extract_attempts_from_subsections nd section_content
      in if attempts \<noteq> [] then table_header_fat @ table_rows 1 attempts
         else generic_table_fat)"

definition add_failed_attempts_table_fat :: "(nat \<Rightarrow> bool) \<Rightarrow> pstr \<Rightarrow> pstr" where
  "add_failed_attempts_table_fat nd content =
     (case re_search [MULTILINE] nd re_heading_fat content of
        None \<Rightarrow> content
      | Some m \<Rightarrow>
          (case re_search [MULTILINE, DOTALL] nd re_section_fat content of
             None \<Rightarrow> content
           | Some section_match \<Rightarrow>
               let section_content = m_group content section_match 1;
                   table = generate_summary_table nd section_content;
                   insert_pos = m_end m
               in take insert_pos content @ table @ drop insert_pos content))"

text \<open>
  \<^verbatim>\<open>fix_skill_file\<close> returns \<^verbatim>\<open>(modified, description)\<close>; the model adds the file
  system after the call and the list of the writes made.
\<close>

type_synonym 'a fixed = "pyexc + ('a \<times> filesys \<times> (path \<times> pstr) list)"

definition fix_skill_file_fat ::
  "(nat \<Rightarrow> bool) \<Rightarrow> filesys \<Rightarrow> path \<Rightarrow> (bool \<times> pstr) fixed" where
  "fix_skill_file_fat nd fs skill_path =
     (case fs_read fs skill_path of
        Inl e \<Rightarrow> Inl e
      | Inr content \<Rightarrow>
          if has_failed_attempts_table_fat nd content
          then Inr ((False, u ''Already has table''), fs, [])
          else
            let original_content = content;
                content = add_failed_attempts_table_fat nd content
            in if content \<noteq> original_content
               then (case fs_write fs skill_path content of
                       Inl e \<Rightarrow> Inl e
                     | Inr fs' \<Rightarrow>
                         Inr ((True, u ''Added summary table''), fs', [(skill_path, content)]))
               else Inr ((False, u ''No changes needed''), fs, []))"

section \<open>JSON values and running a list of steps that may raise\<close>

text \<open>
  What \<^verbatim>\<open>json.load\<close> returns: \<^verbatim>\<open>None\<close>, a bool, an int, a float, a str, a list or a
  dict (in insertion order). A float carries its \<^verbatim>\<open>repr\<close>; its numeric value is not
  modelled. \<^verbatim>\<open>json.load\<close> itself is the parameter \<open>jl\<close> of the functions below: it maps
  the text of a file to a value, or to the message of a JSONDecodeError.
\<close>

datatype json =
    JNull
  | JBool bool
  | JInt int
  | JFloat pstr
  | JStr pstr
  | JList "json list"
  | JObj "(pstr \<times> json) list"

type_synonym json_loader = "pstr \<Rightarrow> pstr + json"

text \<open>\<open>emap f xs\<close> is \<^verbatim>\<open>[f(x) for x in xs]\<close> and \<open>econcat\<close> collects the results of a loop
  that appends; both stop at the first exception.\<close>

fun emap :: "('a \<Rightarrow> 'e + 'b) \<Rightarrow> 'a list \<Rightarrow> 'e + 'b list" where
  "emap f [] = Inr []"
| "emap f (x # xs) =
     (case f x of
        Inl e \<Rightarrow> Inl e
      | Inr y \<Rightarrow> (case emap f xs of Inl e \<Rightarrow> Inl e | Inr ys \<Rightarrow> Inr (y # ys)))"

definition econcat :: "('a \<Rightarrow> 'e + 'b list) \<Rightarrow> 'a list \<Rightarrow> 'e + 'b list" where
  "econcat f xs = (case emap f xs of Inl e \<Rightarrow> Inl e | Inr yss \<Rightarrow> Inr (concat yss))"

section \<open>scripts/validate_plugins.py\<close>

definition MIN_DESCRIPTION_LENGTH :: nat where
  "MIN_DESCRIPTION_LENGTH = 20"

definition VALID_CATEGORIES :: "pstr list" where
  "VALID_CATEGORIES =
     [u ''training'', u ''evaluation'', u ''optimization'', u ''debugging'',
      u ''architecture'', u ''tooling'', u ''ci-cd'', u ''testing'']"

definition REQUIRED_PLUGIN_FIELDS :: "pstr list" where
  "REQUIRED_PLUGIN_FIELDS =
     [u ''name'', u ''version'', u ''description'', u ''category'', u ''date'', u ''tags'']"

record ValidationResult =
  plugin_path :: path
  is_valid :: bool
  errors :: "pstr list"
  warnings :: "pstr list"

subsection \<open>validate_plugin_json\<close>

text \<open>\<^verbatim>\<open>r"^[a-z0-9-]+$"\<close> and \<^verbatim>\<open>r"^\d{4}-\d{2}-\d{2}$"\<close>, both used with
  \<^verbatim>\<open>re.match\<close> and no flag.\<close>

definition re_name :: rx where
  "re_name =
     rx_cat [Bol, Plus True (CUnion (CRange 97 122) (CUnion (CRange 48 57) (COne 45))), Eol]"

definition re_date :: rx where
  "re_date =
     rx_cat [Bol, Cset CDigit, Cset CDigit, Cset CDigit, Cset CDigit, Chr 45,
             Cset CDigit, Cset CDigit, Chr 45, Cset CDigit, Cset CDigit, Eol]"

text \<open>
  The checks of \<^verbatim>\<open>validate_plugin_json\<close> after the file is loaded, one definition for
  each commented block of the source, on the items of the dict. Each returns the errors it
  appends, or the exception it raises: \<^verbatim>\<open>re.match\<close> raises TypeError on a value that
  is not a str, \<^verbatim>\<open>len\<close> on a value without a length, and the membership test in the
  set of categories on a list or dict (unhashable).
\<close>

definition check_required_fields :: "(pstr \<times> json) list \<Rightarrow> pstr list" where
  "check_required_fields kvs =
     (let missing_fields = filter (\<lambda>f. map_of kvs f = None) REQUIRED_PLUGIN_FIELDS
      in if missing_fields \<noteq> []
         then [u ''Missing required fields: '' @ py_join (u '', '') (sort missing_fields)]
         else [])"

definition check_name :: "(nat \<Rightarrow> bool) \<Rightarrow> (pstr \<times> json) list \<Rightarrow> pyexc + pstr list" where
  "check_name nd kvs =
     (case map_of kvs (u ''name'') of
        None \<Rightarrow> Inr []
      | Some (JStr name) \<Rightarrow>
          if re_match [] nd re_name name = None
          then Inr [u ''Invalid name format '' @ [39] @ name @ [39]
                      @ u '' (use lowercase, numbers, hyphens)'']
          else Inr []
      | Some other \<Rightarrow> Inl TypeError)"

definition py_len :: "json \<Rightarrow> pyexc + nat" where
  "py_len v =
     (case v of
        JStr s \<Rightarrow> Inr (length s)
      | JList xs \<Rightarrow> Inr (length xs)
      | JObj kvs \<Rightarrow> Inr (length (remdups (map fst kvs)))
      | other \<Rightarrow> Inl TypeError)"

definition check_description :: "(pstr \<times> json) list \<Rightarrow> pyexc + pstr list" where
  "check_description kvs =
     (case map_of kvs (u ''description'') of
        None \<Rightarrow> Inr []
      | Some desc \<Rightarrow>
          (case py_len desc of
             Inl e \<Rightarrow> Inl e
           | Inr n \<Rightarrow>
               if n < MIN_DESCRIPTION_LENGTH
               then Inr [u ''Description too short ('' @ str_of_nat n @ u '' chars, min ''
                           @ str_of_nat MIN_DESCRIPTION_LENGTH @ u '')'']
               else Inr []))"

definition invalid_category :: "pstr \<Rightarrow> pstr" where
  "invalid_category shown =
     u ''Invalid category '' @ [39] @ shown @ [39] @ u ''. Valid: ''
       @ py_join (u '', '') (sort VALID_CATEGORIES)"

definition check_category :: "(pstr \<times> json) list \<Rightarrow> pyexc + pstr list" where
  "check_category kvs =
     (case map_of kvs (u ''category'') of
        None \<Rightarrow> Inr []
      | Some (JStr category) \<Rightarrow>
          if List.member VALID_CATEGORIES category then Inr []
          else Inr [invalid_category category]
      | Some JNull \<Rightarrow> Inr [invalid_category (u ''None'')]
      | Some (JBool b) \<Rightarrow> Inr [invalid_category (if b then u ''True'' else u ''False'')]
      | Some (JInt i) \<Rightarrow> Inr [invalid_category (str_of_int i)]
      | Some (JFloat r) \<Rightarrow> Inr [invalid_category r]
      | Some (JList xs) \<Rightarrow> Inl TypeError
      | Some (JObj d) \<Rightarrow> Inl TypeError)"

definition check_date :: "(nat \<Rightarrow> bool) \<Rightarrow> (pstr \<times> json) list \<Rightarrow> pyexc + pstr list" where
  "check_date nd kvs =
     (case map_of kvs (u ''date'') of
        None \<Rightarrow> Inr []
      | Some (JStr date) \<Rightarrow>
          if re_match [] nd re_date date = None
          then Inr [u ''Invalid date format '' @ [39] @ date @ [39] @ u '' (use YYYY-MM-DD)'']
          else Inr []
      | Some other \<Rightarrow> Inl TypeError)"

text \<open>The check of the tags returns the errors and the warnings it appends.\<close>

definition check_tags :: "(pstr \<times> json) list \<Rightarrow> pstr list \<times> pstr list" where
  "check_tags kvs =
     (case map_of kvs (u ''tags'') of
        None \<Rightarrow> ([], [])
      | Some (JList xs) \<Rightarrow>
          if xs = [] then ([], [u ''No tags provided - reduces searchability'']) else ([], [])
      | Some other \<Rightarrow> ([u ''tags must be a list''], []))"

text \<open>
  \<^verbatim>\<open>validate_plugin_json\<close> returns \<^verbatim>\<open>(errors, warnings, data)\<close>. Only
  JSONDecodeError is caught around the load. \<^verbatim>\<open>data.keys()\<close> exists on a dict only: on
  any other loaded value it raises AttributeError.
\<close>

definition validate_plugin_json ::
  "json_loader \<Rightarrow> (nat \<Rightarrow> bool) \<Rightarrow> filesys \<Rightarrow> path \<Rightarrow> pyexc + (pstr list \<times> pstr list \<times> json)" where
  "validate_plugin_json jl nd fs plugin_dir =
     (let plugin_json_path = plugin_dir @ [u ''.claude-plugin'', u ''plugin.json'']
      in if \<not> fs_exists fs plugin_json_path
         then Inr ([u ''Missing .claude-plugin/plugin.json''], [], JObj [])
         else
           case fs_read fs plugin_json_path of
             Inl e \<Rightarrow> Inl e
           | Inr txt \<Rightarrow>
               (case jl txt of
                  Inl msg \<Rightarrow> Inr ([u ''Invalid JSON in plugin.json: '' @ msg], [], JObj [])
                | Inr (JObj kvs) \<Rightarrow>
                    (case check_name nd kvs of
                       Inl e \<Rightarrow> Inl e
                     | Inr name_errors \<Rightarrow>
                    (case check_description kvs of
                       Inl e \<Rightarrow> Inl e
                     | Inr desc_errors \<Rightarrow>
                    (case check_category kvs of
                       Inl e \<Rightarrow> Inl e
                     | Inr category_errors \<Rightarrow>
                    (case check_date nd kvs of
                       Inl e \<Rightarrow> Inl e
                     | Inr date_errors \<Rightarrow>
                         Inr (check_required_fields kvs @ name_errors @ desc_errors
                                @ category_errors @ date_errors @ fst (check_tags kvs),
                              snd (check_tags kvs),
                              JObj kvs)))))
                | Inr other \<Rightarrow> Inl AttributeError))"

subsection \<open>validate_skill_md\<close>

text \<open>\<^verbatim>\<open>skills_dir.glob("*/SKILL.md")\<close>: for each directory listed in \<^verbatim>\<open>skills_dir\<close>, in
  listing order, its entry \<^verbatim>\<open>SKILL.md\<close> if there is one. Nothing when \<^verbatim>\<open>skills_dir\<close>
  is not a directory.\<close>

definition glob_skill_md :: "filesys \<Rightarrow> path \<Rightarrow> path list" where
  "glob_skill_md fs skills_dir =
     (case fs_iterdir fs skills_dir of
        Inl e \<Rightarrow> []
      | Inr subdirs \<Rightarrow>
          map (\<lambda>d. d @ [u ''SKILL.md''])
            (filter (\<lambda>d. fs_is_dir fs d \<and> fs_exists fs (d @ [u ''SKILL.md''])) subdirs))"

text \<open>\<^verbatim>\<open>str(e)\<close> of the exception caught around \<^verbatim>\<open>read_text\<close>.\<close>

definition exc_str :: "pyexc \<Rightarrow> pstr" where
  "exc_str e =
     (case e of
        FileNotFoundError p \<Rightarrow>
          u ''[Errno 2] No such file or directory: '' @ [39] @ path_str p @ [39]
      | NotADirectoryError p \<Rightarrow> u ''[Errno 20] Not a directory: '' @ [39] @ path_str p @ [39]
      | IsADirectoryError p \<Rightarrow> u ''[Errno 21] Is a directory: '' @ [39] @ path_str p @ [39]
      | ReadError msg \<Rightarrow> msg
      | other \<Rightarrow> [])"

definition required_sections :: "(pstr \<times> pstr) list" where
  "required_sections =
     [(u ''## Overview'', u ''Overview table''),
      (u ''## When to Use'', u ''When to Use section''),
      (u ''## Verified Workflow'', u ''Verified Workflow section''),
      (u ''## Failed Attempts'', u ''Failed Attempts section (REQUIRED)''),
      (u ''## Results'', u ''Results & Parameters section'')]"

text \<open>The loop over the required sections, returning the errors and the warnings it
  appends, in order.\<close>

fun sections_loop :: "(pstr \<times> pstr) list \<Rightarrow> pstr \<Rightarrow> pstr list \<times> pstr list" where
  "sections_loop [] content = ([], [])"
| "sections_loop ((section_marker, section_name) # rest) content =
     (let later = sections_loop rest content
      in if \<not> str_in section_marker content
         then if str_in (u ''Failed Attempts'') section_name
              then ((u ''Missing '' @ section_name) # fst later, snd later)
              else (fst later, (u ''Missing '' @ section_name) # snd later)
         else later)"

text \<open>
  \<^verbatim>\<open>content.split("## Failed Attempts")[1].split("##")[0]\<close>, with the IndexError of an
  index out of range, and the warning of the check on it.
\<close>

definition failed_section :: "pstr \<Rightarrow> pyexc + pstr" where
  "failed_section content =
     (case py_split (u ''## Failed Attempts'') content of
        before # after # others \<Rightarrow>
          (case py_split (u ''##'') after of
             [] \<Rightarrow> Inl IndexError
           | part # parts \<Rightarrow> Inr part)
      | other \<Rightarrow> Inl IndexError)"

definition table_warning :: pstr where
  "table_warning = u ''Failed Attempts section should contain a table''"

definition check_failed_attempts_table :: "pstr \<Rightarrow> pyexc + pstr list" where
  "check_failed_attempts_table content =
     (if str_in (u ''## Failed Attempts'') content
      then case failed_section content of
             Inl e \<Rightarrow> Inl e
           | Inr section \<Rightarrow> if \<not> str_in (u ''|'') section then Inr [table_warning] else Inr []
      else Inr [])"

text \<open>The checks on the content of SKILL.md, once it is read.\<close>

definition check_skill_content :: "pstr \<Rightarrow> pyexc + (pstr list \<times> pstr list)" where
  "check_skill_content content =
     (let frontmatter_errors =
            (if \<not> startswith content (u ''---'')
             then [u ''SKILL.md missing YAML frontmatter (must start with ---)''] else []);
          sections = sections_loop required_sections content
      in case check_failed_attempts_table content of
           Inl e \<Rightarrow> Inl e
         | Inr table_warnings \<Rightarrow>
             Inr (frontmatter_errors @ fst sections, snd sections @ table_warnings))"

text \<open>\<^verbatim>\<open>validate_skill_md\<close> (its second argument, the plugin data, is never used).\<close>

definition validate_skill_md :: "filesys \<Rightarrow> path \<Rightarrow> pyexc + (pstr list \<times> pstr list)" where
  "validate_skill_md fs plugin_dir =
     (let skills_dir = plugin_dir @ [u ''skills'']
      in if \<not> fs_exists fs skills_dir then Inr ([u ''Missing skills/ directory''], [])
         else
           case glob_skill_md fs skills_dir of
             [] \<Rightarrow> Inr ([u ''No SKILL.md found in skills/ subdirectories''], [])
           | skill_md_path # others \<Rightarrow>
               (case fs_read fs skill_md_path of
                  Inl e \<Rightarrow> Inr ([u ''Failed to read SKILL.md: '' @ exc_str e], [])
                | Inr content \<Rightarrow> check_skill_content content))"

subsection \<open>validate_plugin, find_plugins, main\<close>

definition validate_plugin ::
  "json_loader \<Rightarrow> (nat \<Rightarrow> bool) \<Rightarrow> filesys \<Rightarrow> path \<Rightarrow> pyexc + ValidationResult" where
  "validate_plugin jl nd fs plugin_dir =
     (case validate_plugin_json jl nd fs plugin_dir of
        Inl e \<Rightarrow> Inl e
      | Inr (json_errors, json_warnings, plugin_data) \<Rightarrow>
          (case validate_skill_md fs plugin_dir of
             Inl e \<Rightarrow> Inl e
           | Inr (skill_errors, skill_warnings) \<Rightarrow>
               Inr \<lparr>plugin_path = plugin_dir,
                    is_valid = (length (json_errors @ skill_errors) = 0),
                    errors = json_errors @ skill_errors,
                    warnings = json_warnings @ skill_warnings\<rparr>))"

definition find_plugins_vp :: "filesys \<Rightarrow> path \<Rightarrow> pyexc + path list" where
  "find_plugins_vp fs plugins_dir =
     (case fs_iterdir fs plugins_dir of
        Inl e \<Rightarrow> Inl e
      | Inr category_dirs \<Rightarrow>
          econcat
            (\<lambda>category_dir.
               if \<not> fs_is_dir fs category_dir then Inr []
               else if startswith (path_name category_dir) (u ''.'') then Inr []
               else
                 case fs_iterdir fs category_dir of
                   Inl e \<Rightarrow> Inl e
                 | Inr plugin_dirs \<Rightarrow>
                     Inr (filter
                            (\<lambda>plugin_dir.
                               fs_is_dir fs plugin_dir
                               \<and> \<not> startswith (path_name plugin_dir) (u ''.'')
                               \<and> (fs_exists fs (plugin_dir @ [u ''.claude-plugin''])
                                    \<or> fs_exists fs (plugin_dir @ [u ''skills''])))
                            plugin_dirs))
            category_dirs)"

text \<open>
  \<^verbatim>\<open>main\<close> returns the exit code (the printing is left out). \<open>argv\<close> is
  \<^verbatim>\<open>sys.argv\<close>. The process ends with \<^verbatim>\<open>sys.exit(main())\<close>: its exit status is the
  code returned, and 1 when an exception escapes.
\<close>

definition argv_plugins_dir :: "pstr list \<Rightarrow> path" where
  "argv_plugins_dir argv =
     (let plugins_dir_arg = (if length argv > 1 then argv ! 1 else u ''plugins'')
      in Path plugins_dir_arg)"

definition main_vp :: "json_loader \<Rightarrow> (nat \<Rightarrow> bool) \<Rightarrow> filesys \<Rightarrow> pstr list \<Rightarrow> pyexc + int" where
  "main_vp jl nd fs argv =
     (let plugins_dir = argv_plugins_dir argv
      in if \<not> fs_exists fs plugins_dir then Inr 1
         else
           case find_plugins_vp fs plugins_dir of
             Inl e \<Rightarrow> Inl e
           | Inr plugins \<Rightarrow>
               if plugins = [] then Inr 0
               else
                 case emap (validate_plugin jl nd fs) plugins of
                   Inl e \<Rightarrow> Inl e
                 | Inr results \<Rightarrow>
                     let total = length results;
                         passed = length (filter is_valid results);
                         failed = total - passed
                     in Inr (if failed > 0 then 1 else 0))"

definition exit_status :: "pyexc + int \<Rightarrow> int" where
  "exit_status r = (case r of Inl e \<Rightarrow> 1 | Inr code \<Rightarrow> code)"

section \<open>scripts/generate_marketplace.py\<close>

text \<open>
  \<^verbatim>\<open>load_plugin_metadata\<close> returns None when the manifest is missing and when
  \<^verbatim>\<open>json.load\<close> raises JSONDecodeError. On a loaded dict it sets \<^verbatim>\<open>category\<close> (if
  missing) and \<^verbatim>\<open>path\<close>. On every other loaded value one of the three statements
  \<^verbatim>\<open>"category" not in data\<close>, \<^verbatim>\<open>data["category"] = ...\<close>, \<^verbatim>\<open>data["path"] = ...\<close>
  raises TypeError.
\<close>

definition load_plugin_metadata ::
  "json_loader \<Rightarrow> filesys \<Rightarrow> path \<Rightarrow> pyexc + (pstr \<times> json) list option" where
  "load_plugin_metadata jl fs plugin_dir =
     (let plugin_json_path = plugin_dir @ [u ''.claude-plugin'', u ''plugin.json'']
      in if \<not> fs_exists fs plugin_json_path then Inr None
         else
           case fs_read fs plugin_json_path of
             Inl e \<Rightarrow> Inl e
           | Inr txt \<Rightarrow>
               (case jl txt of
                  Inl msg \<Rightarrow> Inr None
                | Inr (JObj kvs) \<Rightarrow>
                    let data = (if map_of kvs (u ''category'') = None
                                then kvs @ [(u ''category'',
                                             JStr (path_name (path_parent plugin_dir)))]
                                else kvs)
                    in Inr (Some (alist_put (u ''path'') (JStr (path_str plugin_dir)) data))
                | Inr other \<Rightarrow> Inl TypeError))"

definition find_plugins_gm :: "filesys \<Rightarrow> path \<Rightarrow> pyexc + path list" where
  "find_plugins_gm fs plugins_dir =
     (case fs_iterdir fs plugins_dir of
        Inl e \<Rightarrow> Inl e
      | Inr category_dirs \<Rightarrow>
          econcat
            (\<lambda>category_dir.
               if \<not> fs_is_dir fs category_dir then Inr []
               else if startswith (path_name category_dir) (u ''.'') then Inr []
               else
                 case fs_iterdir fs category_dir of
                   Inl e \<Rightarrow> Inl e
                 | Inr plugin_dirs \<Rightarrow>
                     Inr (filter
                            (\<lambda>plugin_dir.
                               fs_is_dir fs plugin_dir
                               \<and> \<not> startswith (path_name plugin_dir) (u ''.'')
                               \<and> fs_exists fs
                                    (plugin_dir @ [u ''.claude-plugin'', u ''plugin.json'']))
                            plugin_dirs))
            category_dirs)"

text \<open>An entry of the index; \<^verbatim>\<open>metadata.get\<close> may return any JSON value.\<close>

record entry =
  e_name :: json
  e_description :: json
  e_version :: json
  e_source :: pstr
  e_category :: json
  e_tags :: json

definition dict_get :: "(pstr \<times> json) list \<Rightarrow> pstr \<Rightarrow> json \<Rightarrow> json" where
  "dict_get kvs k dflt = (case map_of kvs k of None \<Rightarrow> dflt | Some v \<Rightarrow> v)"

text \<open>\<^verbatim>\<open>p.relative_to(base)\<close> for a path \<open>p\<close> below \<open>base\<close>.\<close>

definition relative_to :: "path \<Rightarrow> path \<Rightarrow> path" where
  "relative_to p base = drop (length base) p"

text \<open>The body of the loop over the plugins, for the plugin path \<open>ppath\<close>: the entries it
  appends (none when the metadata is None or an empty dict).\<close>

definition plugin_entry :: "json_loader \<Rightarrow> filesys \<Rightarrow> path \<Rightarrow> path \<Rightarrow> pyexc + entry list" where
  "plugin_entry jl fs plugins_dir ppath =
     (case load_plugin_metadata jl fs ppath of
        Inl e \<Rightarrow> Inl e
      | Inr None \<Rightarrow> Inr []
      | Inr (Some metadata) \<Rightarrow>
          if metadata = [] then Inr []
          else Inr [\<lparr>e_name = dict_get metadata (u ''name'') (JStr (path_name ppath)),
                     e_description = dict_get metadata (u ''description'') (JStr []),
                     e_version = dict_get metadata (u ''version'') (JStr (u ''1.0.0'')),
                     e_source = u ''./'' @ path_str (relative_to ppath
                                                        (path_parent plugins_dir)),
                     e_category = dict_get metadata (u ''category'') (JStr (u ''unknown'')),
                     e_tags = dict_get metadata (u ''tags'') (JList [])\<rparr>])"

text \<open>
  The sort key \<^verbatim>\<open>(x["category"], x["name"])\<close>. Python compares two tuples by the first
  pair of items that are not equal (\<^verbatim>\<open>==\<close>), with \<^verbatim>\<open><\<close> on that pair. On the scalar
  values: two strs compare by code points; ints and bools compare as numbers; any other
  \<^verbatim>\<open><\<close> between scalars raises TypeError. A key that holds a float, a list or a dict is
  outside this model: the result is then \<open>NotModelled\<close>, no Python exception.
\<close>

datatype gm_error = Raised pyexc | NotModelled

fun as_number :: "json \<Rightarrow> int option" where
  "as_number (JInt i) = Some i"
| "as_number (JBool b) = Some (if b then 1 else 0)"
| "as_number other = None"

fun is_scalar :: "json \<Rightarrow> bool" where
  "is_scalar (JFloat r) = False"
| "is_scalar (JList xs) = False"
| "is_scalar (JObj kvs) = False"
| "is_scalar other = True"

definition py_eq :: "json \<Rightarrow> json \<Rightarrow> gm_error + bool" where
  "py_eq a b =
     (if is_scalar a \<and> is_scalar b
      then case (as_number a, as_number b) of
             (Some i, Some j) \<Rightarrow> Inr (i = j)
           | other \<Rightarrow> Inr (a = b)
      else Inl NotModelled)"

definition py_lt :: "json \<Rightarrow> json \<Rightarrow> gm_error + bool" where
  "py_lt a b =
     (if is_scalar a \<and> is_scalar b
      then case (a, b) of
             (JStr s, JStr t) \<Rightarrow> Inr (s < t)
           | other \<Rightarrow>
               (case (as_number a, as_number b) of
                  (Some i, Some j) \<Rightarrow> Inr (i < j)
                | other \<Rightarrow> Inl (Raised TypeError))
      else Inl NotModelled)"

definition key_lt :: "entry \<Rightarrow> entry \<Rightarrow> gm_error + bool" where
  "key_lt x y =
     (case py_eq (e_category x) (e_category y) of
        Inl e \<Rightarrow> Inl e
      | Inr False \<Rightarrow> py_lt (e_category x) (e_category y)
      | Inr True \<Rightarrow>
          (case py_eq (e_name x) (e_name y) of
             Inl e \<Rightarrow> Inl e
           | Inr False \<Rightarrow> py_lt (e_name x) (e_name y)
           | Inr True \<Rightarrow> Inr False))"

text \<open>
  \<^verbatim>\<open>list.sort\<close> is stable and compares with \<^verbatim>\<open><\<close> only. It is modelled by a stable
  insertion sort over the same comparison: each element, from the left, goes behind the
  elements already placed that are not greater. Whenever no comparison raises, the keys
  are totally preordered and both sorts return the one stable sorted permutation.
\<close>

fun insort_e :: "('a \<Rightarrow> 'a \<Rightarrow> 'e + bool) \<Rightarrow> 'a \<Rightarrow> 'a list \<Rightarrow> 'e + 'a list" where
  "insort_e lt x [] = Inr [x]"
| "insort_e lt x (y # ys) =
     (case lt x y of
        Inl e \<Rightarrow> Inl e
      | Inr True \<Rightarrow> Inr (x # y # ys)
      | Inr False \<Rightarrow>
          (case insort_e lt x ys of Inl e \<Rightarrow> Inl e | Inr zs \<Rightarrow> Inr (y # zs)))"

fun sort_e :: "('a \<Rightarrow> 'a \<Rightarrow> 'e + bool) \<Rightarrow> 'a list \<Rightarrow> 'a list \<Rightarrow> 'e + 'a list" where
  "sort_e lt placed [] = Inr placed"
| "sort_e lt placed (x # xs) =
     (case insort_e lt x placed of Inl e \<Rightarrow> Inl e | Inr placed' \<Rightarrow> sort_e lt placed' xs)"

record owner =
  o_name :: pstr
  o_url :: pstr

record marketplace =
  m_name :: pstr
  m_owner :: owner
  m_description :: pstr
  m_version :: pstr
  m_plugins :: "entry list"

definition generate_marketplace ::
  "json_loader \<Rightarrow> filesys \<Rightarrow> path \<Rightarrow> gm_error + marketplace" where
  "generate_marketplace jl fs plugins_dir =
     (case find_plugins_gm fs plugins_dir of
        Inl e \<Rightarrow> Inl (Raised e)
      | Inr plugins \<Rightarrow>
          (case econcat (plugin_entry jl fs plugins_dir) plugins of
             Inl e \<Rightarrow> Inl (Raised e)
           | Inr plugin_entries \<Rightarrow>
               (case sort_e key_lt [] plugin_entries of
                  Inl e \<Rightarrow> Inl e
                | Inr sorted_entries \<Rightarrow>
                    Inr \<lparr>m_name = u ''ProjectMnemosyne'',
                         m_owner = \<lparr>o_name = u ''HomericIntelligence'',
                                    o_url = u ''https://github.com/HomericIntelligence''\<rparr>,
                         m_description =
                           u ''Skills marketplace for the HomericIntelligence agentic ecosystem'',
                         m_version = u ''1.0.0'',
                         m_plugins = sorted_entries\<rparr>)))"

section \<open>scripts/fix_validation_warnings.py\<close>

text \<open>\<^verbatim>\<open>r'^date:\s*["\']?([0-9-]+)["\']?'\<close>, searched with MULTILINE.\<close>

definition re_frontmatter_date :: rx where
  "re_frontmatter_date =
     rx_cat [Bol, Lit (u ''date:''), Star True CSpace,
             Opt (Cset (CUnion (COne 34) (COne 39))),
             Grp 1 (Plus True (CUnion (CRange 48 57) (COne 45))),
             Opt (Cset (CUnion (COne 34) (COne 39)))]"

definition extract_frontmatter_date :: "(nat \<Rightarrow> bool) \<Rightarrow> pstr \<Rightarrow> pstr" where
  "extract_frontmatter_date nd content =
     (case re_search [MULTILINE] nd re_frontmatter_date content of
        None \<Rightarrow> u ''N/A''
      | Some m \<Rightarrow> m_group content m 1)"

text \<open>The loop of \<^verbatim>\<open>extract_objective\<close> over the lines, with its three variables; it
  returns \<^verbatim>\<open>objective_lines\<close> at the end of the loop or at the \<^verbatim>\<open>break\<close>.\<close>

fun objective_loop :: "bool \<Rightarrow> bool \<Rightarrow> pstr list \<Rightarrow> pstr list \<Rightarrow> pstr list" where
  "objective_loop in_frontmatter past_title objective_lines [] = objective_lines"
| "objective_loop in_frontmatter past_title objective_lines (line # lines) =
     (if py_strip line = u ''---''
      then objective_loop (\<not> in_frontmatter) past_title objective_lines lines
      else if in_frontmatter
      then objective_loop in_frontmatter past_title objective_lines lines
      else if startswith line (u ''# '')
      then objective_loop in_frontmatter True objective_lines lines
      else if past_title \<and> py_strip line \<noteq> [] \<and> \<not> startswith line (u ''#'')
      then (let objective_lines' = objective_lines @ [py_strip line]
            in if length (py_join (u '' '') objective_lines') > 100
               then objective_lines'
               else objective_loop in_frontmatter past_title objective_lines' lines)
      else objective_loop in_frontmatter past_title objective_lines lines)"

definition extract_objective :: "pstr \<Rightarrow> pstr" where
  "extract_objective content =
     (let lines = py_split nl content;
          objective_lines = objective_loop False False [] lines;
          objective = py_join (u '' '') objective_lines;
          objective = (if length objective > 150 then take 147 objective @ u ''...''
                       else objective)
      in if objective \<noteq> [] then objective
         else u ''Document workflow and best practices'')"

text \<open>\<^verbatim>\<open>r'^## Overview'\<close>, \<^verbatim>\<open>r'^## Verified Workflow'\<close>, \<^verbatim>\<open>r'^## Results'\<close>, each
  searched with MULTILINE.\<close>

definition has_overview_section :: "(nat \<Rightarrow> bool) \<Rightarrow> pstr \<Rightarrow> bool" where
  "has_overview_section nd content =
     (re_search [MULTILINE] nd (Seq Bol (Lit (u ''## Overview''))) content \<noteq> None)"

definition has_verified_workflow_section :: "(nat \<Rightarrow> bool) \<Rightarrow> pstr \<Rightarrow> bool" where
  "has_verified_workflow_section nd content =
     (re_search [MULTILINE] nd (Seq Bol (Lit (u ''## Verified Workflow''))) content \<noteq> None)"

definition has_results_section :: "(nat \<Rightarrow> bool) \<Rightarrow> pstr \<Rightarrow> bool" where
  "has_results_section nd content =
     (re_search [MULTILINE] nd (Seq Bol (Lit (u ''## Results''))) content \<noteq> None)"

text \<open>\<^verbatim>\<open>r'^## Failed Attempts\s*$(.*?)^##'\<close>, searched with MULTILINE and DOTALL.\<close>

definition re_section_fvw :: rx where
  "re_section_fvw =
     rx_cat [Bol, Lit (u ''## Failed Attempts''), Star True CSpace, Eol,
             Grp 1 (Star False CDot), Bol, Lit (u ''##'')]"

definition has_failed_attempts_table_fvw :: "(nat \<Rightarrow> bool) \<Rightarrow> pstr \<Rightarrow> bool" where
  "has_failed_attempts_table_fvw nd content =
     (case re_search [MULTILINE, DOTALL] nd re_section_fvw content of
        None \<Rightarrow> True
      | Some m \<Rightarrow> str_in (u ''|'') (m_group content m 1))"

text \<open>The loop of \<^verbatim>\<open>add_overview_section\<close> that looks for the title: it returns
  \<^verbatim>\<open>insert_pos\<close>, which stays 0 when no title is found. \<open>i\<close> is the index of the first
  line of the list.\<close>

fun insert_pos_loop :: "bool \<Rightarrow> nat \<Rightarrow> pstr list \<Rightarrow> nat" where
  "insert_pos_loop in_frontmatter i [] = 0"
| "insert_pos_loop in_frontmatter i (line # lines) =
     (if py_strip line = u ''---'' then insert_pos_loop (\<not> in_frontmatter) (Suc i) lines
      else if \<not> in_frontmatter \<and> startswith line (u ''# '') then i + 1
      else insert_pos_loop in_frontmatter (Suc i) lines)"

definition overview_table :: "pstr \<Rightarrow> pstr \<Rightarrow> pstr" where
  "overview_table date objective =
     nl @ text_lines [u ''## Overview'',
                      [],
                      u ''| Item | Details |'',
                      u ''|------|---------|'',
                      u ''| Date | '' @ date @ u '' |'',
                      u ''| Objective | '' @ objective @ u '' |'',
                      u ''| Outcome | Operational |'']"

definition add_overview_section :: "(nat \<Rightarrow> bool) \<Rightarrow> pstr \<Rightarrow> pstr" where
  "add_overview_section nd content =
     (let date = extract_frontmatter_date nd content;
          objective = extract_objective content;
          lines = py_split nl content;
          insert_pos = insert_pos_loop False 0 lines
      in py_join nl (take insert_pos lines @ [overview_table date objective]
                       @ drop insert_pos lines))"

text \<open>\<^verbatim>\<open>r'^## Workflow$'\<close>, substituted with MULTILINE.\<close>

definition rename_workflow_to_verified :: "(nat \<Rightarrow> bool) \<Rightarrow> pstr \<Rightarrow> pstr" where
  "rename_workflow_to_verified nd content =
     (if has_verified_workflow_section nd content then content
      else re_sub [MULTILINE] nd (rx_cat [Bol, Lit (u ''## Workflow''), Eol])
             (u ''## Verified Workflow'') content)"

text \<open>The text of the results section; the dash after N/A is U+2014.\<close>

definition results_section :: pstr where
  "results_section =
     nl @ text_lines [u ''## Results & Parameters'',
                      [],
                      u ''N/A '' @ [8212] @ u '' this skill describes a workflow pattern.'']"

definition add_results_section :: "pstr \<Rightarrow> pstr" where
  "add_results_section content =
     (if str_in (u ''## References'') content
      then py_replace (u ''## References'') (results_section @ nl @ u ''## References'') content
      else py_rstrip content @ nl @ results_section)"

text \<open>\<^verbatim>\<open>r'^## Failed Attempts\s*$'\<close> (MULTILINE),
  \<^verbatim>\<open>r'^## Failed Attempts\s*$(.*?)(?:^##|\Z)'\<close> (MULTILINE and DOTALL) and \<^verbatim>\<open>r'^###'\<close>
  (MULTILINE).\<close>

definition re_heading_fvw :: rx where
  "re_heading_fvw = rx_cat [Bol, Lit (u ''## Failed Attempts''), Star True CSpace, Eol]"

definition re_section_end_fvw :: rx where
  "re_section_end_fvw =
     rx_cat [Bol, Lit (u ''## Failed Attempts''), Star True CSpace, Eol,
             Grp 1 (Star False CDot), Alt (Seq Bol (Lit (u ''##''))) EndZ]"

definition subsections_table :: pstr where
  "subsections_table =
     nl @ nl @
     text_lines [u ''| Attempt | Why Failed | Lesson |'',
                 u ''|---------|-----------|--------|'',
                 u ''| See detailed subsections below | Various technical issues | Refer to individual attempt details |'']"

definition prose_table :: pstr where
  "prose_table =
     nl @ nl @
     text_lines [u ''| Attempt | Why Failed | Lesson |'',
                 u ''|---------|-----------|--------|'',
                 u ''| Initial approach | See details below | Refer to notes in this section |'']"

definition add_failed_attempts_table_fvw :: "(nat \<Rightarrow> bool) \<Rightarrow> pstr \<Rightarrow> pstr" where
  "add_failed_attempts_table_fvw nd content =
     (case re_search [MULTILINE] nd re_heading_fvw content of
        None \<Rightarrow> content
      | Some m \<Rightarrow>
          (case re_search [MULTILINE, DOTALL] nd re_section_end_fvw content of
             None \<Rightarrow> content
           | Some section_match \<Rightarrow>
               let section_content = m_group content section_match 1;
                   has_subsections =
                     (re_search [MULTILINE] nd (Seq Bol (Lit (u ''###''))) section_content
                        \<noteq> None);
                   table = (if has_subsections then subsections_table else prose_table);
                   insert_pos = m_end m
               in take insert_pos content @ table @ drop insert_pos content))"

text \<open>
  The four fixes of \<^verbatim>\<open>fix_skill_file\<close> on the content read, in the order of the source:
  the content after the fixes and the list \<^verbatim>\<open>fixes\<close>.
\<close>

definition fix1 :: "(nat \<Rightarrow> bool) \<Rightarrow> pstr \<times> pstr list \<Rightarrow> pstr \<times> pstr list" where
  "fix1 nd cf =
     (if \<not> has_overview_section nd (fst cf)
      then (add_overview_section nd (fst cf), snd cf @ [u ''Added ## Overview table''])
      else cf)"

definition fix2 :: "(nat \<Rightarrow> bool) \<Rightarrow> pstr \<times> pstr list \<Rightarrow> pstr \<times> pstr list" where
  "fix2 nd cf =
     (if \<not> has_verified_workflow_section nd (fst cf)
      then (let new_content = rename_workflow_to_verified nd (fst cf)
            in if new_content \<noteq> fst cf
               then (new_content, snd cf @ [u ''Renamed ## Workflow to ## Verified Workflow''])
               else cf)
      else cf)"

definition fix3 :: "(nat \<Rightarrow> bool) \<Rightarrow> pstr \<times> pstr list \<Rightarrow> pstr \<times> pstr list" where
  "fix3 nd cf =
     (if \<not> has_results_section nd (fst cf)
      then (add_results_section (fst cf), snd cf @ [u ''Added ## Results & Parameters''])
      else cf)"

definition fix4 :: "(nat \<Rightarrow> bool) \<Rightarrow> pstr \<times> pstr list \<Rightarrow> pstr \<times> pstr list" where
  "fix4 nd cf =
     (if \<not> has_failed_attempts_table_fvw nd (fst cf)
      then (add_failed_attempts_table_fvw nd (fst cf),
            snd cf @ [u ''Added Failed Attempts summary table''])
      else cf)"

definition apply_fixes :: "(nat \<Rightarrow> bool) \<Rightarrow> pstr \<Rightarrow> pstr \<times> pstr list" where
  "apply_fixes nd content = fix4 nd (fix3 nd (fix2 nd (fix1 nd (content, []))))"

text \<open>\<^verbatim>\<open>fix_skill_file\<close> returns \<^verbatim>\<open>(modified, fixes_applied)\<close>; the model adds the file
  system after the call and the list of the writes made.\<close>

definition fix_skill_file_fvw ::
  "(nat \<Rightarrow> bool) \<Rightarrow> filesys \<Rightarrow> path \<Rightarrow> (bool \<times> pstr list) fixed" where
  "fix_skill_file_fvw nd fs skill_path =
     (case fs_read fs skill_path of
        Inl e \<Rightarrow> Inl e
      | Inr original_content \<Rightarrow>
          let fixed = apply_fixes nd original_content;
              content = fst fixed;
              fixes = snd fixed
          in if content \<noteq> original_content
             then (case fs_write fs skill_path content of
                     Inl e \<Rightarrow> Inl e
                   | Inr fs' \<Rightarrow> Inr ((True, fixes), fs', [(skill_path, content)]))
             else Inr ((False, []), fs, []))"

section \<open>Concrete inputs\<close>

text \<open>The examples run in the working directory \<^verbatim>\<open>/repo\<close>, which holds the given tree
  and is the only entry of the root.\<close>

definition in_repo :: "fsnode \<Rightarrow> filesys" where
  "in_repo tree = \<lparr>fs_root = Dir [(u ''repo'', tree)], fs_cwd = [u ''repo'']\<rparr>"

text \<open>
  A skill document whose Failed Attempts section has the subsection
  \<^verbatim>\<open>### Attempt 1: Wrong config\<close> and no pipe character, as the only file of a file
  system; and the document \<^verbatim>\<open>fix_failed_attempts_tables.py\<close> writes for it.
\<close>

definition skill9 :: path where
  "skill9 = [u ''SKILL.md'']"

definition doc9 :: pstr where
  "doc9 = text_lines [u ''## Failed Attempts'',
                      [],
                      u ''### Attempt 1: Wrong config'',
                      u ''Tried the default settings.'']"

definition fs9 :: filesys where
  "fs9 = in_repo
     (Dir [(u ''SKILL.md'', File (Text doc9))])"

definition patched9 :: pstr where
  "patched9 =
     u ''## Failed Attempts'' @ generic_table_fat @ nl @ nl
       @ text_lines [u ''### Attempt 1: Wrong config'', u ''Tried the default settings.'']"

text \<open>
  The manifest of the scenario of claim C1, the text of its file, and \<^verbatim>\<open>json.load\<close> on
  the texts the examples use: the manifest text, an empty list, an empty object; any other
  text here is not JSON.
\<close>

definition quoted :: "pstr \<Rightarrow> pstr" where
  "quoted s = [34] @ s @ [34]"

definition demo_manifest :: json where
  "demo_manifest =
     JObj [(u ''name'', JStr (u ''Demo_Tool'')),
           (u ''version'', JStr (u ''1.0.0'')),
           (u ''description'', JStr (u ''short'')),
           (u ''category'', JStr (u ''bogus'')),
           (u ''date'', JStr (u ''2024-13-40'')),
           (u ''tags'', JStr (u ''x''))]"

definition demo_text :: pstr where
  "demo_text =
     u ''{'' @ quoted (u ''name'') @ u '': '' @ quoted (u ''Demo_Tool'') @ u '', ''
       @ quoted (u ''version'') @ u '':'' @ quoted (u ''1.0.0'') @ u '',''
       @ quoted (u ''description'') @ u '':'' @ quoted (u ''short'') @ u '',''
       @ quoted (u ''category'') @ u '':'' @ quoted (u ''bogus'') @ u '',''
       @ quoted (u ''date'') @ u '':'' @ quoted (u ''2024-13-40'') @ u '',''
       @ quoted (u ''tags'') @ u '':'' @ quoted (u ''x'') @ u ''}''"

definition demo_loader :: json_loader where
  "demo_loader txt =
     (if txt = demo_text then Inr demo_manifest
      else if txt = u ''[]'' then Inr (JList [])
      else if txt = u ''{}'' then Inr (JObj [])
      else Inl (u ''Expecting value: line 1 column 1 (char 0)''))"

definition no_digits :: "nat \<Rightarrow> bool" where
  "no_digits c = False"

text \<open>A plugin tree with the one plugin \<^verbatim>\<open>plugins/tooling/demo\<close>, which has the
  manifest of C1 and no \<^verbatim>\<open>skills\<close> directory.\<close>

definition demo_dir :: path where
  "demo_dir = [u ''plugins'', u ''tooling'', u ''demo'']"

definition fs1 :: filesys where
  "fs1 =
     in_repo
     (Dir [(u ''plugins'',
           Dir [(u ''tooling'',
                 Dir [(u ''demo'',
                       Dir [(u ''.claude-plugin'',
                             Dir [(u ''plugin.json'', File (Text demo_text))])])])])])"

text \<open>The five errors claim C1 expects, and the four the code gives.\<close>

definition name_error :: pstr where
  "name_error =
     u ''Invalid name format '' @ [39] @ u ''Demo_Tool'' @ [39]
       @ u '' (use lowercase, numbers, hyphens)''"

definition description_error :: pstr where
  "description_error = u ''Description too short (5 chars, min 20)''"

definition category_error :: pstr where
  "category_error =
     u ''Invalid category '' @ [39] @ u ''bogus'' @ [39]
       @ u ''. Valid: architecture, ci-cd, debugging, evaluation, optimization, testing, tooling, training''"

definition date_error :: pstr where
  "date_error = u ''Invalid date format '' @ [39] @ u ''2024-13-40'' @ [39] @ u '' (use YYYY-MM-DD)''"

definition tags_error :: pstr where
  "tags_error = u ''tags must be a list''"

text \<open>A plugin tree whose one manifest holds a JSON list, and one whose manifest is not
  JSON; an empty working directory.\<close>

definition fs10 :: filesys where
  "fs10 =
     in_repo
     (Dir [(u ''plugins'',
           Dir [(u ''tooling'',
                 Dir [(u ''demo'',
                       Dir [(u ''.claude-plugin'',
                             Dir [(u ''plugin.json'', File (Text (u ''[]'')))])])])])])"



definition fs_empty :: filesys where
  "fs_empty = in_repo
     (Dir [])"

definition argv0 :: "pstr list" where
  "argv0 = [u ''scripts/validate_plugins.py'']"

text \<open>What claim C2 says of the exit status: whether some discovered plugin is invalid.\<close>

definition some_discovered_invalid ::
  "json_loader \<Rightarrow> (nat \<Rightarrow> bool) \<Rightarrow> filesys \<Rightarrow> path \<Rightarrow> bool" where
  "some_discovered_invalid jl nd fs plugins_dir =
     (case find_plugins_vp fs plugins_dir of
        Inl e \<Rightarrow> False
      | Inr ps \<Rightarrow>
          list_ex (\<lambda>p. case validate_plugin jl nd fs p of
                         Inl e \<Rightarrow> False
                       | Inr r \<Rightarrow> \<not> is_valid r) ps)"

fun is_object :: "json \<Rightarrow> bool" where
  "is_object (JObj kvs) = True"
| "is_object other = False"

text \<open>
  A skill document whose last line is the heading \<^verbatim>\<open>## Workflow\<close> followed by a space,
  what \<^verbatim>\<open>fix_validation_warnings.py\<close> makes of it in a first run, and what a second run
  makes of that.
\<close>

definition skill8 :: path where
  "skill8 = [u ''SKILL.md'']"

definition doc8 :: pstr where
  "doc8 = text_lines [u ''# Demo'', [], u ''## Overview'', [], u ''## Workflow '']"

definition once8 :: pstr where
  "once8 =
     text_lines [u ''# Demo'', [], u ''## Overview'', [], u ''## Workflow''] @ results_section"

definition twice8 :: pstr where
  "twice8 =
     text_lines [u ''# Demo'', [], u ''## Overview'', [], u ''## Verified Workflow'']
       @ results_section"

definition fs8 :: "pstr \<Rightarrow> filesys" where
  "fs8 content = in_repo
     (Dir [(u ''SKILL.md'', File (Text content))])"

text \<open>The text before the first occurrence of a separator: the first item of
  \<^verbatim>\<open>s.split(sep)\<close>.\<close>

definition cut :: "pstr \<Rightarrow> pstr \<Rightarrow> pstr" where
  "cut sep s = (case str_find sep s of None \<Rightarrow> s | Some k \<Rightarrow> take k s)"

text \<open>
  The body of the Failed Attempts section in the words of the spec (claim C3): the lines
  after the heading line \<^verbatim>\<open>## Failed Attempts\<close>, up to the next line that is a heading
  of level two, or to the end of the document. And a heading present "as an exact-match
  line" (claim C4).
\<close>

definition spec_failed_body :: "pstr \<Rightarrow> pstr" where
  "spec_failed_body content =
     (let lines = py_split nl content;
          after = drop 1 (dropWhile (\<lambda>l. l \<noteq> u ''## Failed Attempts'') lines)
      in py_join nl (takeWhile (\<lambda>l. \<not> startswith l (u ''## '')) after))"


text \<open>A plugin tree with the one plugin \<^verbatim>\<open>plugins/tooling/demo\<close> that has no manifest
  and the skill document \<^verbatim>\<open>skills/demo/SKILL.md\<close> with the given content.\<close>

definition skill_fs :: "pstr \<Rightarrow> filesys" where
  "skill_fs content =
     in_repo
     (Dir [(u ''plugins'',
           Dir [(u ''tooling'',
                 Dir [(u ''demo'',
                       Dir [(u ''skills'',
                             Dir [(u ''demo'',
                                   Dir [(u ''SKILL.md'', File (Text content))])])])])])])"

definition demo_skill_md :: path where
  "demo_skill_md = demo_dir @ [u ''skills'', u ''demo'', u ''SKILL.md'']"

text \<open>A document whose Failed Attempts section has its table inside a subsection, and a
  document with all five sections whose results heading is \<^verbatim>\<open>## Results & Parameters\<close>.\<close>

definition doc3 :: pstr where
  "doc3 = text_lines [u ''## Failed Attempts'',
                      [],
                      u ''### Attempt 1'',
                      [],
                      u ''| a | b |'',
                      [],
                      u ''## Results'']"


text \<open>
  The sort key of an entry whose category and name are strings, as a pair of strings;
  pairs and strings are ordered lexicographically, strings by code point.
\<close>

fun is_str :: "json \<Rightarrow> bool" where
  "is_str (JStr s) = True"
| "is_str other = False"

fun str_val :: "json \<Rightarrow> pstr" where
  "str_val (JStr s) = s"
| "str_val other = []"

definition string_keyed :: "entry \<Rightarrow> bool" where
  "string_keyed x = (is_str (e_category x) \<and> is_str (e_name x))"

definition entry_key :: "entry \<Rightarrow> pstr \<times> pstr" where
  "entry_key x = (str_val (e_category x), str_val (e_name x))"

text \<open>A plugin tree with two plugins, listed as \<^verbatim>\<open>training/beta\<close> then
  \<^verbatim>\<open>evaluation/alpha\<close>, each with the manifest \<^verbatim>\<open>{}\<close>; and their index entries.\<close>

definition fs7 :: filesys where
  "fs7 =
     in_repo
     (Dir [(u ''plugins'',
           Dir [(u ''training'',
                 Dir [(u ''beta'',
                       Dir [(u ''.claude-plugin'',
                             Dir [(u ''plugin.json'', File (Text (u ''{}'')))])])]),
                (u ''evaluation'',
                 Dir [(u ''alpha'',
                       Dir [(u ''.claude-plugin'',
                             Dir [(u ''plugin.json'', File (Text (u ''{}'')))])])])])])"

definition entry_beta :: entry where
  "entry_beta =
     \<lparr>e_name = JStr (u ''beta''), e_description = JStr [], e_version = JStr (u ''1.0.0''),
      e_source = u ''./plugins/training/beta'', e_category = JStr (u ''training''),
      e_tags = JList []\<rparr>"

definition entry_alpha :: entry where
  "entry_alpha =
     \<lparr>e_name = JStr (u ''alpha''), e_description = JStr [], e_version = JStr (u ''1.0.0''),
      e_source = u ''./plugins/evaluation/alpha'', e_category = JStr (u ''evaluation''),
      e_tags = JList []\<rparr>"


text \<open>A document with a table in its Failed Attempts section and \<^verbatim>\<open>##\<close> inside a line of
  prose before it.\<close>

definition doc3x :: pstr where
  "doc3x = text_lines [u ''## Failed Attempts'',
                       [],
                       u ''See issue ##12.'',
                       [],
                       u ''| a | b |'',
                       [],
                       u ''## Results'']"

section \<open>Evaluation\<close>

text \<open>The recursive equations that are not structural are unfolded on demand only. The
  facts below are what a concrete run unfolds, besides the definitions of the script.\<close>

declare py_split.simps [simp del] py_replace.simps [simp del] str_of_nat.simps [simp del]
  rx_finditer_from.simps [simp del]

lemmas py_eval =
  u_def nl_def text_lines_def at_bol_def at_eol_def re_search_def re_match_def
  re_finditer_def re_sub_def str_in_def startswith_def m_group_def m_start_def m_end_def
  is_space_def is_digit_def Plus_def Opt_def py_rstrip_def py_strip_def quoted_def
  py_split.simps py_replace.simps str_of_nat.simps rx_finditer_from.simps

lemmas fs_eval =
  fs_exists_def fs_is_dir_def fs_read_def fs_iterdir_def fs_write_def fs_lookup_def
  is_anchor_def in_repo_def path_name_def path_parent_def path_str_def Path_def

section \<open>The table patcher (fix_failed_attempts_tables.py)\<close>

lemma doc9_has_no_table: "has_failed_attempts_table_fat nd doc9 = False"
  by (simp add: has_failed_attempts_table_fat_def doc9_def re_section_fat_def py_eval)

lemma doc9_patched: "add_failed_attempts_table_fat nd doc9 = patched9"
  by (simp add: add_failed_attempts_table_fat_def doc9_def patched9_def re_section_fat_def
        re_heading_fat_def generate_summary_table_def extract_attempts_from_subsections_def
        attempt_patterns_def generic_table_fat_def table_header_fat_def py_eval)

text \<open>
  Claim C9. For a skill document whose Failed Attempts section has the subsection heading
  \<^verbatim>\<open>### Attempt 1: Wrong config\<close> and no pipe character, the table patcher should
  insert a three-column table whose first data row names "Wrong config". The script does
  not: the section text it hands to \<^verbatim>\<open>generate_summary_table\<close> ends at the first line
  that starts with \<^verbatim>\<open>##\<close>, and a \<^verbatim>\<open>###\<close> heading is such a line, so no subsection title
  is ever found there. On \<open>doc9\<close> the file is rewritten with the generic placeholder row,
  and "Wrong config" occurs nowhere in the inserted table.
\<close>

theorem table_patcher_drops_subsection_titles:
  "fix_skill_file_fat nd fs9 skill9 =
     Inr ((True, u ''Added summary table''),
          in_repo (Dir [(u ''SKILL.md'', File (Text patched9))]),
          [(skill9, patched9)])
   \<and> \<not> str_in (u ''Wrong config'') generic_table_fat"
proof
  have "doc9 \<noteq> patched9"
    by (simp add: doc9_def patched9_def generic_table_fat_def table_header_fat_def py_eval)
  then show "fix_skill_file_fat nd fs9 skill9 =
     Inr ((True, u ''Added summary table''),
          in_repo (Dir [(u ''SKILL.md'', File (Text patched9))]),
          [(skill9, patched9)])"
    by (simp add: fix_skill_file_fat_def doc9_has_no_table doc9_patched fs9_def skill9_def
          fs_eval u_def)
  show "\<not> str_in (u ''Wrong config'') generic_table_fat"
    by (simp add: generic_table_fat_def table_header_fat_def py_eval)
qed

section \<open>The validator (validate_plugins.py)\<close>

subsection \<open>What can raise\<close>

lemma fs_read_exists: "fs_read fs p = Inr t \<Longrightarrow> fs_exists fs p"
  by (auto simp: fs_read_def fs_exists_def split: stat.splits)

lemma py_split_not_Nil: "py_split sep s \<noteq> []"
  by (subst py_split.simps) (auto split: option.splits)

lemma failed_section_returns:
  assumes "str_in (u ''## Failed Attempts'') content"
  shows "\<exists>sec. failed_section content = Inr sec"
proof -
  from assms obtain i where i: "str_find (u ''## Failed Attempts'') content = Some i"
    by (auto simp: str_in_def)
  have ne: "u ''## Failed Attempts'' \<noteq> []" by (simp add: u_def)
  obtain a as where a: "py_split (u ''## Failed Attempts'') (drop (i + length (u ''## Failed Attempts'')) content) = a # as"
    using py_split_not_Nil by (cases "py_split (u ''## Failed Attempts'') (drop (i + length (u ''## Failed Attempts'')) content)") auto
  obtain b bs where b: "py_split (u ''##'') a = b # bs"
    using py_split_not_Nil by (cases "py_split (u ''##'') a") auto
  have "py_split (u ''## Failed Attempts'') content = take i content # a # as"
    by (subst py_split.simps) (simp add: i ne a)
  then show ?thesis by (simp add: failed_section_def b)
qed

lemma check_skill_content_returns: "\<exists>es ws. check_skill_content content = Inr (es, ws)"
proof (cases "str_in (u ''## Failed Attempts'') content")
  case True
  then obtain sec where "failed_section content = Inr sec"
    using failed_section_returns by blast
  then show ?thesis
    by (simp add: check_skill_content_def check_failed_attempts_table_def True Let_def)
next
  case False
  then show ?thesis
    by (simp add: check_skill_content_def check_failed_attempts_table_def Let_def)
qed

lemma validate_skill_md_returns: "\<exists>es ws. validate_skill_md fs plugin_dir = Inr (es, ws)"
  using check_skill_content_returns
  by (auto simp: validate_skill_md_def Let_def split: list.splits sum.splits)

lemma validate_plugin_Inr:
  assumes "validate_plugin_json jl nd fs plugin_dir = Inr (es, ws, d)"
  shows "\<exists>ses sws. validate_skill_md fs plugin_dir = Inr (ses, sws) \<and>
           validate_plugin jl nd fs plugin_dir =
             Inr \<lparr>plugin_path = plugin_dir, is_valid = (es @ ses = []),
                  errors = es @ ses, warnings = ws @ sws\<rparr>"
proof -
  obtain ses sws where "validate_skill_md fs plugin_dir = Inr (ses, sws)"
    using validate_skill_md_returns by blast
  then show ?thesis using assms by (simp add: validate_plugin_def)
qed

lemma validate_plugin_Inl:
  "validate_plugin_json jl nd fs plugin_dir = Inl e \<Longrightarrow> validate_plugin jl nd fs plugin_dir = Inl e"
  by (simp add: validate_plugin_def)

lemma is_valid_iff: "validate_plugin jl nd fs p = Inr r \<Longrightarrow> is_valid r = (errors r = [])"
  by (auto simp: validate_plugin_def split: sum.splits prod.splits)

lemma emap_Inl: "x \<in> set xs \<Longrightarrow> f x = Inl e \<Longrightarrow> \<exists>e'. emap f xs = Inl e'"
  by (induction xs) (auto split: sum.splits)

lemma emap_Inr_set: "emap f xs = Inr ys \<Longrightarrow> x \<in> set xs \<Longrightarrow> \<exists>y \<in> set ys. f x = Inr y"
  by (induction xs arbitrary: ys) (auto split: sum.splits)

lemma emap_Inr_map: "emap f xs = Inr ys \<Longrightarrow> map f xs = map Inr ys"
  by (induction xs arbitrary: ys) (auto split: sum.splits)

text \<open>
  Claim C10. When the manifest file parses as JSON but its top-level value is not an
  object, \<^verbatim>\<open>validate_plugin_json\<close> raises (AttributeError, from \<^verbatim>\<open>data.keys()\<close>)
  instead of returning errors; nothing catches it in \<^verbatim>\<open>validate_plugin\<close> or in
  \<^verbatim>\<open>main\<close>, so a run that has discovered this plugin ends with an exception and exit
  status 1.
\<close>

theorem non_object_manifest_raises:
  assumes "fs_read fs (plugin_dir @ [u ''.claude-plugin'', u ''plugin.json'']) = Inr txt"
    and "jl txt = Inr v"
    and "\<not> is_object v"
  shows "validate_plugin_json jl nd fs plugin_dir = Inl AttributeError
         \<and> validate_plugin jl nd fs plugin_dir = Inl AttributeError
         \<and> (fs_exists fs (argv_plugins_dir argv)
              \<and> find_plugins_vp fs (argv_plugins_dir argv) = Inr ps
              \<and> plugin_dir \<in> set ps
            \<longrightarrow> (\<exists>e. main_vp jl nd fs argv = Inl e)
                \<and> exit_status (main_vp jl nd fs argv) = 1)"
proof -
  have ex: "fs_exists fs (plugin_dir @ [u ''.claude-plugin'', u ''plugin.json''])"
    using assms(1) by (rule fs_read_exists)
  have j: "validate_plugin_json jl nd fs plugin_dir = Inl AttributeError"
    using assms ex by (cases v) (simp_all add: validate_plugin_json_def)
  then have p: "validate_plugin jl nd fs plugin_dir = Inl AttributeError"
    by (rule validate_plugin_Inl)
  have "(\<exists>e. main_vp jl nd fs argv = Inl e) \<and> exit_status (main_vp jl nd fs argv) = 1"
    if "fs_exists fs (argv_plugins_dir argv)"
      and "find_plugins_vp fs (argv_plugins_dir argv) = Inr ps"
      and "plugin_dir \<in> set ps"
  proof -
    from emap_Inl [where f = "validate_plugin jl nd fs" and x = plugin_dir and xs = ps
          and e = AttributeError, OF that(3) p] obtain e' where "emap (validate_plugin jl nd fs) ps = Inl e'"
      by (rule exE)
    moreover have "ps \<noteq> []" using that(3) by auto
    ultimately have "main_vp jl nd fs argv = Inl e'"
      using that(1,2) by (simp add: main_vp_def Let_def)
    then show ?thesis by (simp add: exit_status_def)
  qed
  then show ?thesis using j p by simp
qed

lemma fs10_find: "find_plugins_vp fs10 (argv_plugins_dir argv0) = Inr [demo_dir]"
  by (simp add: find_plugins_vp_def econcat_def argv_plugins_dir_def argv0_def fs10_def demo_dir_def fs_eval py_eval)

theorem non_object_manifest_raises_witness:
  "fs_read fs10 (demo_dir @ [u ''.claude-plugin'', u ''plugin.json'']) = Inr (u ''[]'')
   \<and> demo_loader (u ''[]'') = Inr (JList [])
   \<and> \<not> is_object (JList [])
   \<and> validate_plugin_json demo_loader no_digits fs10 demo_dir = Inl AttributeError
   \<and> validate_plugin demo_loader no_digits fs10 demo_dir = Inl AttributeError
   \<and> fs_exists fs10 (argv_plugins_dir argv0)
   \<and> find_plugins_vp fs10 (argv_plugins_dir argv0) = Inr [demo_dir]
   \<and> main_vp demo_loader no_digits fs10 argv0 = Inl AttributeError
   \<and> exit_status (main_vp demo_loader no_digits fs10 argv0) = 1"
proof -
  have r: "fs_read fs10 (demo_dir @ [u ''.claude-plugin'', u ''plugin.json'']) = Inr (u ''[]'')"
    by (simp add: fs10_def demo_dir_def fs_eval py_eval)
  have l: "demo_loader (u ''[]'') = Inr (JList [])"
    by (simp add: demo_loader_def demo_text_def py_eval)
  have o: "\<not> is_object (JList [])" by simp
  have e: "fs_exists fs10 (argv_plugins_dir argv0)"
    by (simp add: argv_plugins_dir_def argv0_def fs10_def fs_eval py_eval)
  note t = non_object_manifest_raises
    [of fs10 demo_dir "u ''[]''" demo_loader "JList []" no_digits argv0 "[demo_dir]"]
  have m: "main_vp demo_loader no_digits fs10 argv0 = Inl AttributeError"
    using t r l e fs10_find by (simp add: main_vp_def Let_def)
  show ?thesis using r l e fs10_find t m by simp
qed

subsection \<open>The manifest of the scenario\<close>

lemmas vp_eval =
  validate_plugin_json_def check_name_def check_description_def check_category_def
  check_date_def check_tags_def check_required_fields_def re_name_def re_date_def py_len_def
  MIN_DESCRIPTION_LENGTH_def REQUIRED_PLUGIN_FIELDS_def VALID_CATEGORIES_def
  invalid_category_def

lemmas demo_errors =
  name_error_def description_error_def category_error_def date_error_def tags_error_def

lemma demo_manifest_checks:
  "validate_plugin_json jl nd fs plugin_dir =
     Inr ([name_error, description_error, category_error, tags_error], [], demo_manifest)"
  if "fs_read fs (plugin_dir @ [u ''.claude-plugin'', u ''plugin.json'']) = Inr txt"
    and "jl txt = Inr demo_manifest"
proof -
  have ex: "fs_exists fs (plugin_dir @ [u ''.claude-plugin'', u ''plugin.json''])"
    using that(1) by (rule fs_read_exists)
  have n: "check_name nd [(u ''name'', JStr (u ''Demo_Tool'')),
           (u ''version'', JStr (u ''1.0.0'')),
           (u ''description'', JStr (u ''short'')),
           (u ''category'', JStr (u ''bogus'')),
           (u ''date'', JStr (u ''2024-13-40'')),
           (u ''tags'', JStr (u ''x''))] = Inr [name_error]"
    by (simp add: vp_eval demo_errors py_eval)
  have d: "check_date nd [(u ''name'', JStr (u ''Demo_Tool'')),
           (u ''version'', JStr (u ''1.0.0'')),
           (u ''description'', JStr (u ''short'')),
           (u ''category'', JStr (u ''bogus'')),
           (u ''date'', JStr (u ''2024-13-40'')),
           (u ''tags'', JStr (u ''x''))] = Inr []"
    by (simp add: vp_eval demo_errors py_eval)
  show ?thesis
    using that ex
    apply (simp add: validate_plugin_json_def demo_manifest_def n d)
    apply (simp add: vp_eval demo_errors py_eval)
    done
qed

lemma date_2024_13_40_matches: "re_match [] nd re_date (u ''2024-13-40'') \<noteq> None"
  by (simp add: re_date_def py_eval)

text \<open>
  Claim C1, as amended. For a plugin whose manifest file loads to the manifest of the
  scenario, \<^verbatim>\<open>validate_plugin_json\<close> returns exactly four errors, in this order: invalid
  name format, description too short, invalid category, tags must be a list; it returns
  no warning. There is no date error: \<^verbatim>\<open>2024-13-40\<close> matches \<^verbatim>\<open>^\d{4}-\d{2}-\d{2}$\<close>,
  which looks at the shape of the date only. The plugin is marked invalid.
\<close>

theorem demo_manifest_four_errors:
  assumes "fs_read fs (plugin_dir @ [u ''.claude-plugin'', u ''plugin.json'']) = Inr txt"
    and "jl txt = Inr demo_manifest"
  shows "validate_plugin_json jl nd fs plugin_dir =
           Inr ([name_error, description_error, category_error, tags_error], [], demo_manifest)
         \<and> re_match [] nd re_date (u ''2024-13-40'') \<noteq> None
         \<and> (\<exists>r. validate_plugin jl nd fs plugin_dir = Inr r \<and> \<not> is_valid r)"
proof -
  have j: "validate_plugin_json jl nd fs plugin_dir =
           Inr ([name_error, description_error, category_error, tags_error], [], demo_manifest)"
    using demo_manifest_checks [of fs plugin_dir "txt" jl nd] assms by simp
  from validate_plugin_Inr [OF j] obtain r where
    "validate_plugin jl nd fs plugin_dir = Inr r" "\<not> is_valid r"
    by auto
  with j date_2024_13_40_matches show ?thesis by blast
qed

lemma fs1_read: "fs_read fs1 (demo_dir @ [u ''.claude-plugin'', u ''plugin.json'']) = Inr demo_text"
  by (simp add: fs1_def demo_dir_def fs_eval py_eval)

lemma demo_loader_text: "demo_loader demo_text = Inr demo_manifest"
  by (simp add: demo_loader_def)

theorem demo_manifest_four_errors_witness:
  "fs_read fs1 (demo_dir @ [u ''.claude-plugin'', u ''plugin.json'']) = Inr demo_text
   \<and> demo_loader demo_text = Inr demo_manifest
   \<and> validate_plugin_json demo_loader no_digits fs1 demo_dir =
           Inr ([name_error, description_error, category_error, tags_error], [], demo_manifest)
   \<and> re_match [] no_digits re_date (u ''2024-13-40'') \<noteq> None
   \<and> (\<exists>r. validate_plugin demo_loader no_digits fs1 demo_dir = Inr r \<and> \<not> is_valid r)"
  using demo_manifest_four_errors [of fs1 demo_dir demo_text demo_loader no_digits]
    fs1_read demo_loader_text by simp

text \<open>Claim C1 as stated fails: the result is not the list of five errors with the date
  error in it.\<close>

theorem demo_manifest_date_counterexample:
  "validate_plugin_json demo_loader no_digits fs1 demo_dir \<noteq>
     Inr ([name_error, description_error, category_error, date_error, tags_error], [],
          demo_manifest)"
  using demo_manifest_checks [of fs1 demo_dir demo_text demo_loader no_digits]
    fs1_read demo_loader_text
  by (simp add: demo_errors py_eval)

subsection \<open>Pass or fail, and the exit status\<close>

lemma emap_length: "emap f xs = Inr ys \<Longrightarrow> length ys = length xs"
  by (induction xs arbitrary: ys) (auto split: sum.splits)

lemma failed_count: "(length (filter P rs) < length rs) = (\<exists>r\<in>set rs. \<not> P r)"
proof
  assume "length (filter P rs) < length rs"
  then have "filter P rs \<noteq> rs" by auto
  then show "\<exists>r\<in>set rs. \<not> P r" by (simp add: filter_id_conv)
next
  assume "\<exists>r\<in>set rs. \<not> P r"
  then show "length (filter P rs) < length rs" by (auto intro: length_filter_less)
qed

lemma emap_list_ex:
  "emap f ps = Inr rs \<Longrightarrow>
     list_ex (\<lambda>p. case f p of Inl e \<Rightarrow> False | Inr r \<Rightarrow> \<not> P r) ps = (\<exists>r\<in>set rs. \<not> P r)"
  by (induction ps arbitrary: rs) (auto split: sum.splits)

text \<open>
  Claim C2, as amended. The result of \<^verbatim>\<open>validate_plugin\<close> has \<^verbatim>\<open>is_valid\<close> true exactly
  when its error list is empty (the warnings play no part). \<^verbatim>\<open>main\<close> returns the exit
  status 1 when the plugins directory does not exist. When the directory exists and
  \<^verbatim>\<open>main\<close> returns (no exception escapes from the discovery or from the validation of a
  plugin), the exit status it returns is nonzero exactly when one of the discovered
  plugins is invalid.
\<close>

theorem validator_exit_status:
  "(validate_plugin jl nd fs p = Inr r \<longrightarrow> is_valid r = (errors r = []))
   \<and> (\<not> fs_exists fs (argv_plugins_dir argv) \<longrightarrow> main_vp jl nd fs argv = Inr 1)
   \<and> (fs_exists fs (argv_plugins_dir argv) \<and> main_vp jl nd fs argv = Inr code
      \<longrightarrow> (code \<noteq> 0) = some_discovered_invalid jl nd fs (argv_plugins_dir argv))"
proof (intro conjI impI)
  assume "validate_plugin jl nd fs p = Inr r"
  then show "is_valid r = (errors r = [])" by (rule is_valid_iff)
next
  assume "\<not> fs_exists fs (argv_plugins_dir argv)"
  then show "main_vp jl nd fs argv = Inr 1" by (simp add: main_vp_def)
next
  assume "fs_exists fs (argv_plugins_dir argv) \<and> main_vp jl nd fs argv = Inr code"
  then have a: "fs_exists fs (argv_plugins_dir argv)" "main_vp jl nd fs argv = Inr code"
    by simp_all
  then obtain ps where ps: "find_plugins_vp fs (argv_plugins_dir argv) = Inr ps"
    by (cases "find_plugins_vp fs (argv_plugins_dir argv)") (auto simp: main_vp_def)
  show "(code \<noteq> 0) = some_discovered_invalid jl nd fs (argv_plugins_dir argv)"
  proof (cases "ps = []")
    case True
    with a ps show ?thesis by (simp add: main_vp_def some_discovered_invalid_def)
  next
    case False
    with a ps obtain rs where rs: "emap (validate_plugin jl nd fs) ps = Inr rs"
      by (cases "emap (validate_plugin jl nd fs) ps") (auto simp: main_vp_def)
    with a ps False have "code = (if length (filter is_valid rs) < length rs then 1 else 0)"
      by (simp add: main_vp_def Let_def)
    then show ?thesis
      by (simp add: some_discovered_invalid_def ps emap_list_ex [OF rs] failed_count)
  qed
qed

lemma fs1_exists: "fs_exists fs1 (argv_plugins_dir argv0)"
  by (simp add: argv_plugins_dir_def argv0_def fs1_def fs_eval py_eval)

lemma fs1_find: "find_plugins_vp fs1 (argv_plugins_dir argv0) = Inr [demo_dir]"
  by (simp add: find_plugins_vp_def econcat_def argv_plugins_dir_def argv0_def fs1_def
        demo_dir_def fs_eval py_eval)

lemma fs1_skill: "validate_skill_md fs1 demo_dir = Inr ([u ''Missing skills/ directory''], [])"
  by (simp add: validate_skill_md_def fs1_def demo_dir_def fs_eval py_eval)

lemma fs1_plugin:
  "validate_plugin demo_loader no_digits fs1 demo_dir =
     Inr \<lparr>plugin_path = demo_dir, is_valid = False,
          errors = [name_error, description_error, category_error, tags_error,
                    u ''Missing skills/ directory''],
          warnings = []\<rparr>"
  using demo_manifest_checks [of fs1 demo_dir demo_text demo_loader no_digits]
    fs1_read demo_loader_text fs1_skill
  by (simp add: validate_plugin_def)

theorem validator_exit_status_witness:
  "validate_plugin demo_loader no_digits fs1 demo_dir =
     Inr \<lparr>plugin_path = demo_dir, is_valid = False,
          errors = [name_error, description_error, category_error, tags_error,
                    u ''Missing skills/ directory''],
          warnings = []\<rparr>
   \<and> fs_exists fs1 (argv_plugins_dir argv0)
   \<and> main_vp demo_loader no_digits fs1 argv0 = Inr 1
   \<and> some_discovered_invalid demo_loader no_digits fs1 (argv_plugins_dir argv0)
   \<and> \<not> fs_exists fs_empty (argv_plugins_dir argv0)
   \<and> main_vp demo_loader no_digits fs_empty argv0 = Inr 1"
proof -
  have ne: "\<not> fs_exists fs_empty (argv_plugins_dir argv0)"
    by (simp add: argv_plugins_dir_def argv0_def fs_empty_def fs_eval py_eval)
  have m: "main_vp demo_loader no_digits fs1 argv0 = Inr 1"
    by (simp add: main_vp_def fs1_exists fs1_find fs1_plugin)
  note t1 = validator_exit_status [of demo_loader no_digits fs1 demo_dir _ argv0 1]
  note t2 = validator_exit_status [of demo_loader no_digits fs_empty demo_dir _ argv0]
  have "some_discovered_invalid demo_loader no_digits fs1 (argv_plugins_dir argv0)"
    using t1 fs1_exists m by simp
  moreover have "main_vp demo_loader no_digits fs_empty argv0 = Inr 1"
    using t2 ne by simp
  ultimately show ?thesis using fs1_plugin fs1_exists m ne by simp
qed

text \<open>Claim C2 as stated fails: with no plugins directory the exit status is nonzero and
  no discovered plugin is invalid (none is discovered).\<close>

theorem validator_exit_status_counterexample:
  "exit_status (main_vp demo_loader no_digits fs_empty argv0) \<noteq> 0
   \<and> \<not> some_discovered_invalid demo_loader no_digits fs_empty (argv_plugins_dir argv0)"
  by (simp add: main_vp_def exit_status_def some_discovered_invalid_def find_plugins_vp_def
        argv_plugins_dir_def argv0_def fs_empty_def fs_eval py_eval)

section \<open>Plugin discovery and the manifest loader\<close>












section \<open>The index builder (generate_marketplace)\<close>

lemma key_lt_strings:
  assumes "string_keyed x" and "string_keyed y"
  shows "key_lt x y = Inr (entry_key x < entry_key y)"
proof -
  obtain c n where x: "e_category x = JStr c" "e_name x = JStr n"
    using assms(1) by (cases "e_category x"; cases "e_name x") (auto simp: string_keyed_def)
  obtain c' n' where y: "e_category y = JStr c'" "e_name y = JStr n'"
    using assms(2) by (cases "e_category y"; cases "e_name y") (auto simp: string_keyed_def)
  show ?thesis
    by (cases "c = c'"; cases "n = n'")
       (auto simp: key_lt_def py_eq_def py_lt_def entry_key_def x y less_prod_def)
qed

lemma insort_e_strings:
  assumes "string_keyed x" and "list_all string_keyed ys"
  shows "\<exists>zs. insort_e key_lt x ys = Inr zs \<and> mset zs = mset (x # ys)
              \<and> list_all string_keyed zs
              \<and> (sorted (map entry_key ys) \<longrightarrow> sorted (map entry_key zs))"
  using assms(2)
proof (induction ys)
  case Nil
  then show ?case using assms(1) by simp
next
  case (Cons y ys)
  then have y: "string_keyed y" and ys: "list_all string_keyed ys" by simp_all
  from Cons.IH [OF ys] obtain zs where zs: "insort_e key_lt x ys = Inr zs"
    "mset zs = mset (x # ys)" "list_all string_keyed zs"
    "sorted (map entry_key ys) \<longrightarrow> sorted (map entry_key zs)" by blast
  show ?case
  proof (cases "entry_key x < entry_key y")
    case True
    then show ?thesis
      using assms(1) y ys by (auto simp: key_lt_strings [OF assms(1) y])
  next
    case False
    have "set zs = insert x (set ys)" using zs(2) by (metis mset_eq_setD list.simps(15))
    then have "sorted (map entry_key (y # zs))" if "sorted (map entry_key (y # ys))"
      using that zs(4) False by auto
    then show ?thesis
      using False y zs by (simp add: key_lt_strings [OF assms(1) y])
  qed
qed

lemma sort_e_strings:
  assumes "list_all string_keyed xs" and "list_all string_keyed placed"
    and "sorted (map entry_key placed)"
  shows "\<exists>zs. sort_e key_lt placed xs = Inr zs \<and> mset zs = mset placed + mset xs
              \<and> sorted (map entry_key zs)"
  using assms
proof (induction xs arbitrary: placed)
  case Nil
  then show ?case by simp
next
  case (Cons x xs)
  then have x: "string_keyed x" and xs: "list_all string_keyed xs" by simp_all
  from insort_e_strings [OF x Cons.prems(2)] Cons.prems(3)
  obtain p' where p': "insort_e key_lt x placed = Inr p'" "mset p' = mset (x # placed)"
    "list_all string_keyed p'" "sorted (map entry_key p')" by blast
  from Cons.IH [OF xs p'(3,4)] obtain zs where "sort_e key_lt p' xs = Inr zs"
    "mset zs = mset p' + mset xs" "sorted (map entry_key zs)" by blast
  then show ?case using p' by simp
qed

lemma sorted_by_key_unique:
  assumes "sorted (map f xs)" and "sorted (map f ys)" and "mset xs = mset ys"
    and "distinct (map f xs)"
  shows "xs = ys"
proof -
  have m: "mset (map f xs) = mset (map f ys)" using assms(3) by simp
  then have d: "distinct (map f ys)" using assms(4) by (metis mset_eq_imp_distinct_iff)
  have "set (map f xs) = set (map f ys)" using m by (rule mset_eq_setD)
  with assms(1,2,4) d have e: "map f xs = map f ys" by (intro sorted_distinct_set_unique)
  have "set xs = set ys" using assms(3) by (rule mset_eq_setD)
  moreover have "inj_on f (set xs)" using assms(4) by (simp add: distinct_map)
  ultimately have "inj_on f (set xs \<union> set ys)" by simp
  with e show ?thesis by (simp add: inj_on_map_eq_map)
qed


text \<open>
  Claim C7. When the categories and names of the entries are strings,
  \<^verbatim>\<open>generate_marketplace\<close> returns, and its plugins array holds the entries of the
  discovered plugins sorted ascending by the pair (category, name), pairs and strings
  compared lexicographically. A run reads nothing but the plugin tree (the code puts no
  time stamp into the index), so two runs over the same tree return the same array; and
  when no two entries share their key, the array does not depend on the order in which the
  entries were discovered either.
\<close>

theorem marketplace_sorted_and_deterministic:
  assumes "find_plugins_gm fs plugins_dir = Inr ps"
    and "econcat (plugin_entry jl fs plugins_dir) ps = Inr es"
    and "list_all string_keyed es"
  shows "\<exists>m. generate_marketplace jl fs plugins_dir = Inr m
           \<and> sorted (map entry_key (m_plugins m))
           \<and> mset (m_plugins m) = mset es
           \<and> (\<forall>m'. generate_marketplace jl fs plugins_dir = Inr m'
                  \<longrightarrow> m_plugins m' = m_plugins m)
           \<and> (\<forall>es'. mset es' = mset es \<and> distinct (map entry_key es)
                  \<longrightarrow> sort_e key_lt [] es' = Inr (m_plugins m))"
proof -
  from sort_e_strings [OF assms(3), of "[]"] obtain zs where
    zs: "sort_e key_lt [] es = Inr zs" "mset zs = mset es" "sorted (map entry_key zs)"
    by auto
  have other: "sort_e key_lt [] es' = Inr zs"
    if "mset es' = mset es" and "distinct (map entry_key es)" for es'
  proof -
    have "set es' = set es" using that(1) by (rule mset_eq_setD)
    with assms(3) have "list_all string_keyed es'" by (simp add: list_all_iff)
    from sort_e_strings [OF this, of "[]"] obtain zs' where
      zs': "sort_e key_lt [] es' = Inr zs'" "mset zs' = mset es'"
        "sorted (map entry_key zs')" by auto
    have "mset (map entry_key zs) = mset (map entry_key es)" using zs(2) by simp
    with that(2) have "distinct (map entry_key zs)" by (metis mset_eq_imp_distinct_iff)
    with zs zs' that(1) have "zs = zs'" by (intro sorted_by_key_unique) simp_all
    with zs'(1) show ?thesis by simp
  qed
  have "generate_marketplace jl fs plugins_dir =
      Inr \<lparr>m_name = u ''ProjectMnemosyne'',
           m_owner = \<lparr>o_name = u ''HomericIntelligence'',
                      o_url = u ''https://github.com/HomericIntelligence''\<rparr>,
           m_description =
             u ''Skills marketplace for the HomericIntelligence agentic ecosystem'',
           m_version = u ''1.0.0'',
           m_plugins = zs\<rparr>"
    by (simp add: generate_marketplace_def assms(1,2) zs(1))
  with zs other show ?thesis by simp
qed

lemmas gm_eval =
  find_plugins_gm_def plugin_entry_def load_plugin_metadata_def econcat_def dict_get_def
  relative_to_def demo_loader_def demo_text_def

lemma fs7_find:
  "find_plugins_gm fs7 [u ''plugins''] =
     Inr [[u ''plugins'', u ''training'', u ''beta''],
          [u ''plugins'', u ''evaluation'', u ''alpha'']]"
  by (simp add: fs7_def gm_eval fs_eval py_eval)

lemma fs7_entries:
  "econcat (plugin_entry demo_loader fs7 [u ''plugins''])
     [[u ''plugins'', u ''training'', u ''beta''],
      [u ''plugins'', u ''evaluation'', u ''alpha'']] = Inr [entry_beta, entry_alpha]"
  by (simp add: fs7_def entry_beta_def entry_alpha_def gm_eval fs_eval py_eval)

lemma fs7_keys:
  "list_all string_keyed [entry_beta, entry_alpha]"
  "distinct (map entry_key [entry_beta, entry_alpha])"
  by (simp_all add: string_keyed_def entry_key_def entry_beta_def entry_alpha_def u_def)

lemma fs7_sorted: "sort_e key_lt [] [entry_beta, entry_alpha] = Inr [entry_alpha, entry_beta]"
  by (simp add: key_lt_def py_eq_def py_lt_def entry_beta_def entry_alpha_def u_def)

theorem marketplace_sorted_and_deterministic_witness:
  "find_plugins_gm fs7 [u ''plugins''] =
     Inr [[u ''plugins'', u ''training'', u ''beta''],
          [u ''plugins'', u ''evaluation'', u ''alpha'']]
   \<and> econcat (plugin_entry demo_loader fs7 [u ''plugins''])
       [[u ''plugins'', u ''training'', u ''beta''],
        [u ''plugins'', u ''evaluation'', u ''alpha'']] = Inr [entry_beta, entry_alpha]
   \<and> list_all string_keyed [entry_beta, entry_alpha]
   \<and> (\<exists>m. generate_marketplace demo_loader fs7 [u ''plugins''] = Inr m
          \<and> m_plugins m = [entry_alpha, entry_beta]
          \<and> sorted (map entry_key (m_plugins m))
          \<and> sort_e key_lt [] [entry_alpha, entry_beta] = Inr (m_plugins m))"
proof -
  from marketplace_sorted_and_deterministic [OF fs7_find fs7_entries fs7_keys(1)]
  obtain m where m: "generate_marketplace demo_loader fs7 [u ''plugins''] = Inr m"
    "sorted (map entry_key (m_plugins m))"
    "\<forall>es'. mset es' = mset [entry_beta, entry_alpha]
              \<and> distinct (map entry_key [entry_beta, entry_alpha])
           \<longrightarrow> sort_e key_lt [] es' = Inr (m_plugins m)"
    by blast
  have "mset [entry_beta, entry_alpha] = mset [entry_beta, entry_alpha]" by simp
  with m(3) fs7_keys(2) have a: "sort_e key_lt [] [entry_beta, entry_alpha] = Inr (m_plugins m)"
    by blast
  have "mset [entry_alpha, entry_beta] = mset [entry_beta, entry_alpha]" by simp
  with m(3) fs7_keys(2) have b: "sort_e key_lt [] [entry_alpha, entry_beta] = Inr (m_plugins m)"
    by blast
  from a fs7_sorted have "m_plugins m = [entry_alpha, entry_beta]" by simp
  with m(1,2) b fs7_find fs7_entries fs7_keys(1) show ?thesis by blast
qed

section \<open>The checks on the skill document (validate_skill_md)\<close>

subsection \<open>Searching a string\<close>

lemma startswith_prefix: "startswith s p = prefix p s"
proof
  assume "startswith s p"
  then have "s = p @ drop (length p) s"
    by (metis append_take_drop_id startswith_def)
  then show "prefix p s" by (rule prefixI)
next
  assume "prefix p s"
  then show "startswith s p" by (auto simp: startswith_def prefix_def)
qed

lemma str_find_None_iff: "(str_find sub s = None) = (\<not> sublist sub s)"
  by (induction s) (auto simp: startswith_prefix sublist_Cons_right)

lemma str_in_sublist: "str_in sub s = sublist sub s"
  by (simp add: str_in_def str_find_None_iff)

lemma sublist_single: "sublist [x] s = (x \<in> set s)"
  by (induction s) (auto simp: sublist_Cons_right)

text \<open>The first occurrence.\<close>

lemma str_find_first:
  assumes "sub \<noteq> []" and "\<not> sublist sub (pre @ butlast sub)"
  shows "str_find sub (pre @ sub @ post) = Some (length pre)"
  using assms(2)
proof (induction pre)
  case Nil
  obtain c cs where "sub = c # cs" using assms(1) by (cases sub) auto
  then show ?case by (simp add: startswith_def)
next
  case (Cons p ps)
  have "\<not> prefix sub ((p # ps) @ sub @ post)"
  proof
    assume "prefix sub ((p # ps) @ sub @ post)"
    then have "take (length sub) ((p # ps) @ sub @ post) = sub"
      by (auto simp: prefix_def)
    moreover have "take (length sub) ((p # ps) @ sub @ post)
                     = take (length sub) ((p # ps) @ butlast sub)"
      using assms(1) by (cases sub rule: rev_cases) auto
    ultimately have "sublist sub ((p # ps) @ butlast sub)"
      by (metis sublist_take)
    with Cons.prems show False by simp
  qed
  moreover have "\<not> sublist sub (ps @ butlast sub)"
    using Cons.prems by (auto simp: sublist_Cons_right)
  ultimately show ?case using Cons.IH by (simp add: startswith_prefix)
qed

lemma str_find_Some_D:
  "str_find sub s = Some k \<Longrightarrow> k \<le> length s \<and> prefix sub (drop k s)"
proof (induction s arbitrary: k)
  case Nil
  then show ?case by (auto split: if_splits)
next
  case (Cons c cs)
  then show ?case by (auto simp: startswith_prefix split: if_splits)
qed

lemma str_find_least:
  "str_find sub s = Some k \<Longrightarrow> j \<le> length s \<Longrightarrow> prefix sub (drop j s) \<Longrightarrow> k \<le> j"
proof (induction s arbitrary: k j)
  case Nil
  then show ?case by (auto split: if_splits)
next
  case (Cons c cs)
  show ?case
  proof (cases "startswith (c # cs) sub")
    case True
    with Cons.prems show ?thesis by simp
  next
    case False
    with Cons.prems obtain k' where k': "str_find sub cs = Some k'" "k = Suc k'" by auto
    have "j \<noteq> 0"
    proof
      assume "j = 0"
      with False Cons.prems(3) show False by (simp add: startswith_prefix)
    qed
    then obtain j' where "j = Suc j'" by (cases j) auto
    with Cons.prems k' Cons.IH [of k' j'] show ?thesis by simp
  qed
qed

lemma py_split_hd: "sep \<noteq> [] \<Longrightarrow> \<exists>more. py_split sep s = cut sep s # more"
  by (subst py_split.simps) (auto simp: cut_def split: option.splits)

lemma py_split_found:
  "sep \<noteq> [] \<Longrightarrow> str_find sep s = Some i \<Longrightarrow>
     py_split sep s = take i s # py_split sep (drop (i + length sep) s)"
  by (subst py_split.simps) simp

lemma cut_absent: "\<not> sublist sep s \<Longrightarrow> cut sep s = s"
  by (simp add: cut_def str_find_None_iff [symmetric])

lemma cut_first:
  "sep \<noteq> [] \<Longrightarrow> \<not> sublist sep (a @ butlast sep) \<Longrightarrow> cut sep (a @ sep @ b) = a"
  by (simp add: cut_def str_find_first)

subsection \<open>The required sections\<close>

lemma glob_exists:
  "glob_skill_md fs skills_dir = p # others \<Longrightarrow> fs_exists fs skills_dir"
  by (auto simp: glob_skill_md_def fs_iterdir_def fs_exists_def split: stat.splits)

lemma validate_skill_md_content:
  assumes "glob_skill_md fs (plugin_dir @ [u ''skills'']) = skill_md_path # others"
    and "fs_read fs skill_md_path = Inr content"
  shows "validate_skill_md fs plugin_dir = check_skill_content content"
  using assms glob_exists [OF assms(1)] by (simp add: validate_skill_md_def)

lemma section_names:
  "str_in (u ''Failed Attempts'') (u ''Overview table'') = False"
  "str_in (u ''Failed Attempts'') (u ''When to Use section'') = False"
  "str_in (u ''Failed Attempts'') (u ''Verified Workflow section'') = False"
  "str_in (u ''Failed Attempts'') (u ''Failed Attempts section (REQUIRED)'') = True"
  "str_in (u ''Failed Attempts'') (u ''Results & Parameters section'') = False"
  by (simp_all add: py_eval)

lemma u_append: "u a @ u b = u (a @ b)"
  by (simp add: u_def)

lemma sections_loop_required:
  "sections_loop required_sections content =
     ((if sublist (u ''## Failed Attempts'') content then []
       else [u ''Missing Failed Attempts section (REQUIRED)'']),
      (if sublist (u ''## Overview'') content then [] else [u ''Missing Overview table''])
      @ (if sublist (u ''## When to Use'') content then []
         else [u ''Missing When to Use section''])
      @ (if sublist (u ''## Verified Workflow'') content then []
         else [u ''Missing Verified Workflow section''])
      @ (if sublist (u ''## Results'') content then []
         else [u ''Missing Results & Parameters section'']))"
  by (simp add: required_sections_def Let_def section_names str_in_sublist [symmetric]
        u_append)

lemma message_facts:
  "u ''Missing Failed Attempts section (REQUIRED)''
     \<noteq> u ''SKILL.md missing YAML frontmatter (must start with ---)''"
  "u ''Missing Overview table'' \<noteq> u ''SKILL.md missing YAML frontmatter (must start with ---)''"
  "u ''Missing When to Use section''
     \<noteq> u ''SKILL.md missing YAML frontmatter (must start with ---)''"
  "u ''Missing Verified Workflow section''
     \<noteq> u ''SKILL.md missing YAML frontmatter (must start with ---)''"
  "u ''Missing Results & Parameters section''
     \<noteq> u ''SKILL.md missing YAML frontmatter (must start with ---)''"
  "table_warning \<noteq> u ''SKILL.md missing YAML frontmatter (must start with ---)''"
  "table_warning \<noteq> u ''Missing Failed Attempts section (REQUIRED)''"
  "table_warning \<noteq> u ''Missing Overview table''"
  "table_warning \<noteq> u ''Missing When to Use section''"
  "table_warning \<noteq> u ''Missing Verified Workflow section''"
  "table_warning \<noteq> u ''Missing Results & Parameters section''"
  "u ''Missing Failed Attempts section (REQUIRED)'' \<noteq> u ''Missing Overview table''"
  "u ''Missing Failed Attempts section (REQUIRED)'' \<noteq> u ''Missing When to Use section''"
  "u ''Missing Failed Attempts section (REQUIRED)'' \<noteq> u ''Missing Verified Workflow section''"
  "u ''Missing Failed Attempts section (REQUIRED)''
     \<noteq> u ''Missing Results & Parameters section''"
  "u ''Missing Overview table'' \<noteq> u ''Missing When to Use section''"
  "u ''Missing Overview table'' \<noteq> u ''Missing Verified Workflow section''"
  "u ''Missing Overview table'' \<noteq> u ''Missing Results & Parameters section''"
  "u ''Missing When to Use section'' \<noteq> u ''Missing Verified Workflow section''"
  "u ''Missing When to Use section'' \<noteq> u ''Missing Results & Parameters section''"
  "u ''Missing Verified Workflow section'' \<noteq> u ''Missing Results & Parameters section''"
  by (simp_all add: table_warning_def u_def)






subsection \<open>The table of the Failed Attempts section\<close>

lemma failed_section_cut:
  assumes "content = pre @ u ''## Failed Attempts'' @ t"
    and "\<not> sublist (u ''## Failed Attempts'') (pre @ butlast (u ''## Failed Attempts''))"
  shows "failed_section content = Inr (cut (u ''##'') (cut (u ''## Failed Attempts'') t))"
proof -
  have ne: "u ''## Failed Attempts'' \<noteq> []" "u ''##'' \<noteq> []" by (simp_all add: u_def)
  have "str_find (u ''## Failed Attempts'') content = Some (length pre)"
    unfolding assms(1) using ne(1) assms(2) by (rule str_find_first)
  then have "py_split (u ''## Failed Attempts'') content
               = pre # py_split (u ''## Failed Attempts'') t"
    using py_split_found [OF ne(1), of content "length pre"] by (simp add: assms(1))
  moreover obtain more where
    "py_split (u ''## Failed Attempts'') t = cut (u ''## Failed Attempts'') t # more"
    using py_split_hd [OF ne(1)] by blast
  moreover obtain more' where
    "py_split (u ''##'') (cut (u ''## Failed Attempts'') t)
       = cut (u ''##'') (cut (u ''## Failed Attempts'') t) # more'"
    using py_split_hd [OF ne(2)] by blast
  ultimately show ?thesis by (simp add: failed_section_def)
qed

lemma sublist_trans: "sublist xs ys \<Longrightarrow> sublist ys zs \<Longrightarrow> sublist xs zs"
  by (metis append.assoc sublist_def)

lemma prefix_trans: "prefix xs ys \<Longrightarrow> prefix ys zs \<Longrightarrow> prefix xs zs"
  by (metis append.assoc prefix_def)

lemma examined_text:
  fixes h :: nat
  assumes F: "F = [h, h] @ F'"
    and nohash: "\<not> sublist [h, h] (body @ take 1 rest)"
    and rest: "rest = [] \<or> prefix [h, h] rest"
  shows "cut [h, h] (cut F (body @ rest)) = body
         \<or> cut [h, h] (cut F (body @ rest)) = body @ [h]"
proof (cases "rest = []")
  case True
  with nohash have nb: "\<not> sublist [h, h] body" by simp
  have "sublist [h, h] F" unfolding F by (rule sublist_append_rightI)
  with nb have "\<not> sublist F body" using sublist_trans by blast
  with nb True show ?thesis by (simp add: cut_absent)
next
  case False
  with rest obtain r' where r': "rest = [h, h] @ r'" by (auto simp: prefix_def)
  have nh: "\<not> sublist [h, h] (body @ [h])" using nohash r' by simp
  then have nb: "\<not> sublist [h, h] body"
    using sublist_trans [OF _ sublist_append_rightI] by blast
  have first: "str_find [h, h] (body @ rest) = Some (length body)"
    unfolding r' using nh by (intro str_find_first) simp_all
  show ?thesis
  proof (cases "str_find F (body @ rest)")
    case None
    then have "cut F (body @ rest) = body @ [h, h] @ r'" by (simp add: cut_def r')
    moreover have "cut [h, h] (body @ [h, h] @ r') = body"
      using nh by (intro cut_first) simp_all
    ultimately show ?thesis by simp
  next
    case (Some j)
    from str_find_Some_D [OF Some] have j: "j \<le> length (body @ rest)"
      and pf: "prefix F (drop j (body @ rest))" by auto
    have hF: "prefix [h, h] F" unfolding F by (simp add: prefix_def)
    from hF pf have "prefix [h, h] (drop j (body @ rest))" by (rule prefix_trans)
    with first j have lb: "length body \<le> j" by (rule str_find_least)
    have c: "cut F (body @ rest) = take j (body @ rest)" by (simp add: cut_def Some)
    consider "j = length body" | "j = Suc (length body)" | "Suc (Suc (length body)) \<le> j"
      using lb by linarith
    then show ?thesis
    proof cases
      case 1
      then have "take j (body @ rest) = body" by simp
      with c nb show ?thesis by (simp add: cut_absent)
    next
      case 2
      then have "take j (body @ rest) = body @ [h]" by (simp add: r')
      with c nh show ?thesis by (simp add: cut_absent)
    next
      case 3
      then obtain d where d: "j = length body + 2 + d"
        by (metis add_2_eq_Suc' le_Suc_ex add.commute add.assoc)
      then have "take j (body @ rest) = body @ [h, h] @ take d r'" by (simp add: r')
      moreover have "cut [h, h] (body @ [h, h] @ take d r') = body"
        using nh by (intro cut_first) simp_all
      ultimately show ?thesis using c by simp
    qed
  qed
qed

lemma pipe_in_examined_text:
  assumes "\<not> sublist (u ''##'') (body @ take 1 rest)"
    and "rest = [] \<or> prefix (u ''##'') rest"
  shows "str_in (u ''|'') (cut (u ''##'') (cut (u ''## Failed Attempts'') (body @ rest)))
         = (124 \<in> set body)"
proof -
  have H: "u ''##'' = [35, 35]" and F: "u ''## Failed Attempts'' = [35, 35] @ u '' Failed Attempts''"
    and P: "u ''|'' = [124]"
    by (simp_all add: u_def)
  from examined_text [OF F assms [unfolded H]]
  show ?thesis unfolding H P by (auto simp: str_in_sublist sublist_single)
qed


text \<open>
  What the pipe check of the validator looks at: when the document contains the string
  \<^verbatim>\<open>## Failed Attempts\<close>, the text between the first occurrence of that string and the
  next occurrence of \<^verbatim>\<open>##\<close> anywhere (a \<^verbatim>\<open>###\<close> heading or a \<^verbatim>\<open>##\<close> inside a line
  ends it too), or the end of the document. The warning, and no error, is given exactly
  when that text, here \<open>body\<close>, has no pipe character.
\<close>

theorem failed_attempts_pipe_check:
  assumes "glob_skill_md fs (plugin_dir @ [u ''skills'']) = skill_md_path # others"
    and "fs_read fs skill_md_path = Inr content"
    and "content = pre @ u ''## Failed Attempts'' @ body @ rest"
    and "\<not> sublist (u ''## Failed Attempts'') (pre @ butlast (u ''## Failed Attempts''))"
    and "\<not> sublist (u ''##'') (body @ take 1 rest)"
    and "rest = [] \<or> prefix (u ''##'') rest"
  shows "\<exists>es ws. validate_skill_md fs plugin_dir = Inr (es, ws)
           \<and> (table_warning \<in> set ws) = (124 \<notin> set body)
           \<and> table_warning \<notin> set es"
proof -
  have fa: "str_in (u ''## Failed Attempts'') content"
    unfolding str_in_sublist assms(3) by (rule sublist_appendI)
  have fsec: "failed_section content
        = Inr (cut (u ''##'') (cut (u ''## Failed Attempts'') (body @ rest)))"
    using assms(3,4) by (rule failed_section_cut)
  have tw: "check_failed_attempts_table content
        = Inr (if 124 \<in> set body then [] else [table_warning])"
    by (simp add: check_failed_attempts_table_def fa fsec
          pipe_in_examined_text [OF assms(5,6)])
  have "check_skill_content content =
      Inr ((if \<not> startswith content (u ''---'')
            then [u ''SKILL.md missing YAML frontmatter (must start with ---)''] else [])
           @ fst (sections_loop required_sections content),
           snd (sections_loop required_sections content)
           @ (if 124 \<in> set body then [] else [table_warning]))"
    by (simp add: check_skill_content_def tw Let_def)
  then show ?thesis
    unfolding validate_skill_md_content [OF assms(1,2)] sections_loop_required
    by (simp add: message_facts message_facts [symmetric])
qed



subsection \<open>Two documents\<close>

lemmas skill_eval =
  validate_skill_md_def glob_skill_md_def check_skill_content_def
  check_failed_attempts_table_def failed_section_def required_sections_def table_warning_def
  skill_fs_def demo_dir_def demo_skill_md_def

lemma skill_fs_glob:
  "glob_skill_md (skill_fs content) (demo_dir @ [u ''skills'']) = [demo_skill_md]"
  by (simp add: skill_eval fs_eval py_eval)

lemma skill_fs_read: "fs_read (skill_fs content) demo_skill_md = Inr content"
  by (simp add: skill_eval fs_eval py_eval)





lemma doc3_result:
  "validate_skill_md (skill_fs doc3) demo_dir =
     Inr ([u ''SKILL.md missing YAML frontmatter (must start with ---)''],
          [u ''Missing Overview table'', u ''Missing When to Use section'',
           u ''Missing Verified Workflow section'', table_warning])"
  by (simp add: validate_skill_md_content [OF skill_fs_glob skill_fs_read]
        check_skill_content_def check_failed_attempts_table_def failed_section_def
        required_sections_def doc3_def table_warning_def py_eval)


lemmas table_eval =
  has_failed_attempts_table_fat_def has_failed_attempts_table_fvw_def re_section_fat_def
  re_section_fvw_def

text \<open>
  Claim C3. The pipe check should look at the body of the Failed Attempts section, up to
  the next heading of level two, and warn exactly when that body has no pipe character.
  The validator cuts the text at the first \<^verbatim>\<open>##\<close> of any kind instead. In \<open>doc3x\<close> the
  section has a table after a line of prose with \<^verbatim>\<open>##12\<close> in it: the text looked at ends
  before \<^verbatim>\<open>##12\<close>, and the validator warns that the section should contain a table,
  while the \<^verbatim>\<open>has_failed_attempts_table\<close> of both patchers finds the table. In \<open>doc3\<close>
  the table is in a \<^verbatim>\<open>###\<close> subsection, and the validator warns as well.
\<close>

theorem validator_warns_despite_table:
  "str_in (u ''|'') (spec_failed_body doc3x)
   \<and> has_failed_attempts_table_fat nd doc3x
   \<and> has_failed_attempts_table_fvw nd doc3x
   \<and> failed_section doc3x = Inr (nl @ nl @ u ''See issue '')
   \<and> validate_skill_md (skill_fs doc3x) demo_dir =
     Inr ([u ''SKILL.md missing YAML frontmatter (must start with ---)''],
          [u ''Missing Overview table'', u ''Missing When to Use section'',
           u ''Missing Verified Workflow section'', table_warning])
   \<and> str_in (u ''|'') (spec_failed_body doc3)
   \<and> failed_section doc3 = Inr (nl @ nl)
   \<and> validate_skill_md (skill_fs doc3) demo_dir =
     Inr ([u ''SKILL.md missing YAML frontmatter (must start with ---)''],
          [u ''Missing Overview table'', u ''Missing When to Use section'',
           u ''Missing Verified Workflow section'', table_warning])"
proof (intro conjI)
  show "str_in (u ''|'') (spec_failed_body doc3x)"
    by (simp add: spec_failed_body_def doc3x_def py_eval)
  show "has_failed_attempts_table_fat nd doc3x"
    by (simp add: table_eval doc3x_def py_eval)
  show "has_failed_attempts_table_fvw nd doc3x"
    by (simp add: table_eval doc3x_def py_eval)
  show "failed_section doc3x = Inr (nl @ nl @ u ''See issue '')"
    by (simp add: failed_section_def doc3x_def py_eval)
  show "validate_skill_md (skill_fs doc3x) demo_dir =
     Inr ([u ''SKILL.md missing YAML frontmatter (must start with ---)''],
          [u ''Missing Overview table'', u ''Missing When to Use section'',
           u ''Missing Verified Workflow section'', table_warning])"
    by (simp add: validate_skill_md_content [OF skill_fs_glob skill_fs_read]
        check_skill_content_def check_failed_attempts_table_def failed_section_def
        required_sections_def doc3x_def table_warning_def py_eval)
  show "str_in (u ''|'') (spec_failed_body doc3)"
    by (simp add: spec_failed_body_def doc3_def py_eval)
  show "failed_section doc3 = Inr (nl @ nl)"
    by (simp add: failed_section_def doc3_def py_eval)
  show "validate_skill_md (skill_fs doc3) demo_dir =
     Inr ([u ''SKILL.md missing YAML frontmatter (must start with ---)''],
          [u ''Missing Overview table'', u ''Missing When to Use section'',
           u ''Missing Verified Workflow section'', table_warning])"
    by (rule doc3_result)
qed

theorem failed_attempts_pipe_check_witness:
  "glob_skill_md (skill_fs doc3) (demo_dir @ [u ''skills'']) = [demo_skill_md]
   \<and> fs_read (skill_fs doc3) demo_skill_md = Inr doc3
   \<and> doc3 = [] @ u ''## Failed Attempts'' @ (nl @ nl)
              @ text_lines [u ''### Attempt 1'', [], u ''| a | b |'', [], u ''## Results'']
   \<and> \<not> sublist (u ''## Failed Attempts'') ([] @ butlast (u ''## Failed Attempts''))
   \<and> \<not> sublist (u ''##'')
         ((nl @ nl) @ take 1 (text_lines [u ''### Attempt 1'', [], u ''| a | b |'', [],
                                            u ''## Results'']))
   \<and> prefix (u ''##'')
         (text_lines [u ''### Attempt 1'', [], u ''| a | b |'', [], u ''## Results''])
   \<and> (\<exists>es ws. validate_skill_md (skill_fs doc3) demo_dir = Inr (es, ws)
           \<and> table_warning \<in> set ws \<and> table_warning \<notin> set es)"
proof -
  have d: "doc3 = [] @ u ''## Failed Attempts'' @ (nl @ nl)
              @ text_lines [u ''### Attempt 1'', [], u ''| a | b |'', [], u ''## Results'']"
    by (simp add: doc3_def py_eval)
  have f: "\<not> sublist (u ''## Failed Attempts'') ([] @ butlast (u ''## Failed Attempts''))"
    by (simp add: str_in_sublist [symmetric] py_eval)
  have h: "\<not> sublist (u ''##'')
         ((nl @ nl) @ take 1 (text_lines [u ''### Attempt 1'', [], u ''| a | b |'', [],
                                            u ''## Results'']))"
    by (simp add: str_in_sublist [symmetric] py_eval)
  have p: "prefix (u ''##'')
         (text_lines [u ''### Attempt 1'', [], u ''| a | b |'', [], u ''## Results''])"
    by (simp add: startswith_prefix [symmetric] py_eval)
  have n: "124 \<notin> set (nl @ nl)" by (simp add: nl_def)
  from failed_attempts_pipe_check [OF skill_fs_glob skill_fs_read d f h disjI2 [OF p]] n
  have "\<exists>es ws. validate_skill_md (skill_fs doc3) demo_dir = Inr (es, ws)
           \<and> table_warning \<in> set ws \<and> table_warning \<notin> set es"
    by simp
  with skill_fs_glob [of doc3] skill_fs_read [of doc3] d f h p show ?thesis by blast
qed

section \<open>The section patcher (fix_validation_warnings.py)\<close>

lemmas fvw_eval =
  apply_fixes_def fix1_def fix2_def fix3_def fix4_def has_overview_section_def
  has_verified_workflow_section_def has_results_section_def
  has_failed_attempts_table_fvw_def rename_workflow_to_verified_def add_results_section_def
  re_section_fvw_def results_section_def

lemma doc8_first_run: "apply_fixes nd doc8 = (once8, [u ''Added ## Results & Parameters''])"
  by (simp add: doc8_def once8_def fvw_eval py_eval)

lemma doc8_second_run:
  "apply_fixes nd once8 = (twice8, [u ''Renamed ## Workflow to ## Verified Workflow''])"
  by (simp add: once8_def twice8_def fvw_eval py_eval)

lemma fix_skill_file_fvw_writes_iff_changed:
  assumes "fs_read fs skill_path = Inr content"
    and "fix_skill_file_fvw nd fs skill_path = Inr (r, fs', ws)"
  shows "(ws \<noteq> []) = (fst (apply_fixes nd content) \<noteq> content)"
    and "fst r = (ws \<noteq> [])"
    and "ws = [] \<Longrightarrow> fs' = fs"
  using assms by (auto simp: fix_skill_file_fvw_def Let_def split: if_splits sum.splits)

text \<open>
  Claim C8. The section patcher should be idempotent: a second run on the document a
  first run wrote should change nothing and report no fix. The guards of the four fixes
  aim at that, but the third fix can make the second applicable: \<^verbatim>\<open>add_results_section\<close>
  strips the white space at the end of the document, and a last line \<^verbatim>\<open>## Workflow\<close>
  followed by a space, which \<^verbatim>\<open>^## Workflow$\<close> did not match, becomes a line that it
  matches. On \<open>doc8\<close> the first run adds the results section and the second run renames
  the heading: it writes the file again and reports one fix. (The file is written exactly
  when the content changed: \<open>fix_skill_file_fvw_writes_iff_changed\<close>.)
\<close>

theorem section_patcher_second_run_modifies:
  "fix_skill_file_fvw nd (fs8 doc8) skill8 =
     Inr ((True, [u ''Added ## Results & Parameters'']), fs8 once8, [(skill8, once8)])
   \<and> fix_skill_file_fvw nd (fs8 once8) skill8 =
     Inr ((True, [u ''Renamed ## Workflow to ## Verified Workflow'']), fs8 twice8,
          [(skill8, twice8)])"
proof
  have r: "fs_read (fs8 c) skill8 = Inr c" for c
    by (simp add: fs8_def skill8_def fs_eval u_def)
  have w: "fs_write (fs8 c) skill8 c' = Inr (fs8 c')" for c c'
    by (simp add: fs8_def skill8_def fs_eval u_def)
  have d1: "once8 \<noteq> doc8"
    by (simp add: doc8_def once8_def results_section_def py_eval)
  have d2: "twice8 \<noteq> once8"
    by (simp add: twice8_def once8_def results_section_def py_eval)
  show "fix_skill_file_fvw nd (fs8 doc8) skill8 =
     Inr ((True, [u ''Added ## Results & Parameters'']), fs8 once8, [(skill8, once8)])"
    by (simp add: fix_skill_file_fvw_def r w d1 doc8_first_run)
  show "fix_skill_file_fvw nd (fs8 once8) skill8 =
     Inr ((True, [u ''Renamed ## Workflow to ## Verified Workflow'']), fs8 twice8,
          [(skill8, twice8)])"
    by (simp add: fix_skill_file_fvw_def r w d2 doc8_second_run)
qed

end
